theory Spec2Isabelle
  imports Complex_Main
begin

section \<open>Values and exceptions of the host language\<close>

text \<open>
  The calculator engine (\<^verbatim>\<open>backend/engine.py\<close>) evaluates Python expressions over Python
  values. An exception is a value of \<open>pyexc\<close>: its class and the text that \<^verbatim>\<open>str(e)\<close> gives.
  \<open>EvalError\<close> is the engine's own class; the others are the host's.
\<close>

datatype pyexc =
    EvalError string
  | ZeroDivisionError string
  | TypeError string
  | ValueError string
  | OverflowError string
  | StatisticsError string
  | IndexError string
  | SyntaxError string
  | RecursionError string

fun exc_str :: "pyexc \<Rightarrow> string" where
  "exc_str (EvalError m) = m"
| "exc_str (ZeroDivisionError m) = m"
| "exc_str (TypeError m) = m"
| "exc_str (ValueError m) = m"
| "exc_str (OverflowError m) = m"
| "exc_str (StatisticsError m) = m"
| "exc_str (IndexError m) = m"
| "exc_str (SyntaxError m) = m"
| "exc_str (RecursionError m) = m"

fun exc_class :: "pyexc \<Rightarrow> string" where
  "exc_class (EvalError m) = ''EvalError''"
| "exc_class (ZeroDivisionError m) = ''ZeroDivisionError''"
| "exc_class (TypeError m) = ''TypeError''"
| "exc_class (ValueError m) = ''ValueError''"
| "exc_class (OverflowError m) = ''OverflowError''"
| "exc_class (StatisticsError m) = ''StatisticsError''"
| "exc_class (IndexError m) = ''IndexError''"
| "exc_class (SyntaxError m) = ''SyntaxError''"
| "exc_class (RecursionError m) = ''RecursionError''"

text \<open>
  Python values. An \<open>int\<close> is unbounded; a \<open>float\<close> is idealised as a real number (no
  rounding, no overflow, no NaN); a string is its UTF-8 bytes. \<open>VExc\<close> is an exception
  instance held as an ordinary object (not raised). \<open>VComplex\<close> is what the host's power
  operator returns for a negative base and a fractional exponent.
\<close>

datatype pyval =
    VInt int
  | VFloat real
  | VComplex complex
  | VBool bool
  | VStr string
  | VNone
  | VList "pyval list"
  | VTuple "pyval list"
  | VExc pyexc

fun type_name :: "pyval \<Rightarrow> string" where
  "type_name (VInt i) = ''int''"
| "type_name (VFloat r) = ''float''"
| "type_name (VComplex c) = ''complex''"
| "type_name (VBool b) = ''bool''"
| "type_name (VStr s) = ''str''"
| "type_name VNone = ''NoneType''"
| "type_name (VList xs) = ''list''"
| "type_name (VTuple xs) = ''tuple''"
| "type_name (VExc e) = exc_class e"

definition quoted :: "string \<Rightarrow> string" where
  "quoted s = CHR 0x27 # s @ [CHR 0x27]"

text \<open>Truthiness, as \<^verbatim>\<open>bool(v)\<close>, \<^verbatim>\<open>not v\<close>, \<^verbatim>\<open>all\<close> and \<^verbatim>\<open>any\<close> read it.\<close>

fun truthy :: "pyval \<Rightarrow> bool" where
  "truthy (VInt i) = (i \<noteq> 0)"
| "truthy (VFloat r) = (r \<noteq> 0)"
| "truthy (VComplex c) = (c \<noteq> 0)"
| "truthy (VBool b) = b"
| "truthy (VStr s) = (s \<noteq> [])"
| "truthy VNone = False"
| "truthy (VList xs) = (xs \<noteq> [])"
| "truthy (VTuple xs) = (xs \<noteq> [])"
| "truthy (VExc e) = True"

text \<open>The real numbers among the values: \<open>int\<close>, \<open>bool\<close> (an \<open>int\<close> subclass) and \<open>float\<close>.\<close>

datatype pynum = NI int | NF real

fun as_num :: "pyval \<Rightarrow> pynum option" where
  "as_num (VInt i) = Some (NI i)"
| "as_num (VBool b) = Some (NI (if b then 1 else 0))"
| "as_num (VFloat r) = Some (NF r)"
| "as_num v = None"

fun num_real :: "pynum \<Rightarrow> real" where
  "num_real (NI i) = of_int i"
| "num_real (NF r) = r"

fun num_val :: "pynum \<Rightarrow> pyval" where
  "num_val (NI i) = VInt i"
| "num_val (NF r) = VFloat r"

section \<open>Host operators\<close>

text \<open>
  Modelled from the spec: the operators of the host's \<^verbatim>\<open>operator\<close> module
  (\<^verbatim>\<open>add, sub, mul, truediv, floordiv, mod, pow\<close>), the comparisons and the unary
  operators are not code of the repository. Section 4.3 gives them as standard arithmetic
  with true division, floor division, modulo and power, where division or modulo by zero
  raises \<open>ZeroDivisionError\<close> and a type mismatch raises \<open>TypeError\<close>. On sequences and
  strings the host concatenates (\<open>+\<close>) and repeats (\<open>*\<close>). Arithmetic with a complex
  operand and string formatting with conversion specifiers are outside the model.
\<close>

definition unsupported_operand :: "string \<Rightarrow> pyval \<Rightarrow> pyval \<Rightarrow> pyexc" where
  "unsupported_operand opname a b =
     TypeError (''unsupported operand type(s) for '' @ opname @ '': '' @ quoted (type_name a)
                @ '' and '' @ quoted (type_name b))"

fun num_add :: "pynum \<Rightarrow> pynum \<Rightarrow> pynum" where
  "num_add (NI a) (NI b) = NI (a + b)"
| "num_add x y = NF (num_real x + num_real y)"

fun num_sub :: "pynum \<Rightarrow> pynum \<Rightarrow> pynum" where
  "num_sub (NI a) (NI b) = NI (a - b)"
| "num_sub x y = NF (num_real x - num_real y)"

fun num_mul :: "pynum \<Rightarrow> pynum \<Rightarrow> pynum" where
  "num_mul (NI a) (NI b) = NI (a * b)"
| "num_mul x y = NF (num_real x * num_real y)"

fun num_truediv :: "pynum \<Rightarrow> pynum \<Rightarrow> pyexc + pynum" where
  "num_truediv (NI a) (NI b) =
     (if b = 0 then Inl (ZeroDivisionError ''division by zero'')
      else Inr (NF (of_int a / of_int b)))"
| "num_truediv x y =
     (if num_real y = 0 then Inl (ZeroDivisionError ''float division by zero'')
      else Inr (NF (num_real x / num_real y)))"

fun num_floordiv :: "pynum \<Rightarrow> pynum \<Rightarrow> pyexc + pynum" where
  "num_floordiv (NI a) (NI b) =
     (if b = 0 then Inl (ZeroDivisionError ''integer division or modulo by zero'')
      else Inr (NI (a div b)))"
| "num_floordiv x y =
     (if num_real y = 0 then Inl (ZeroDivisionError ''float floor division by zero'')
      else Inr (NF (of_int \<lfloor>num_real x / num_real y\<rfloor>)))"

fun num_mod :: "pynum \<Rightarrow> pynum \<Rightarrow> pyexc + pynum" where
  "num_mod (NI a) (NI b) =
     (if b = 0 then Inl (ZeroDivisionError ''integer modulo by zero'')
      else Inr (NI (a mod b)))"
| "num_mod x y =
     (if num_real y = 0 then Inl (ZeroDivisionError ''float modulo'')
      else Inr (NF (num_real x - of_int \<lfloor>num_real x / num_real y\<rfloor> * num_real y)))"

definition float_pow :: "real \<Rightarrow> real \<Rightarrow> pyexc + pyval" where
  "float_pow b e =
     (if e = 0 then Inr (VFloat 1)
      else if b = 0 then
        (if e < 0 then Inl (ZeroDivisionError ''0.0 cannot be raised to a negative power'')
         else Inr (VFloat 0))
      else if 0 < b then Inr (VFloat (b powr e))
      else if e = of_int \<lfloor>e\<rfloor> then Inr (VFloat (b powi \<lfloor>e\<rfloor>))
      else Inr (VComplex (of_real (\<bar>b\<bar> powr e) * cis (pi * e))))"

fun num_pow :: "pynum \<Rightarrow> pynum \<Rightarrow> pyexc + pyval" where
  "num_pow (NI a) (NI b) =
     (if 0 \<le> b then Inr (VInt (a ^ nat b)) else float_pow (of_int a) (of_int b))"
| "num_pow x y = float_pow (num_real x) (num_real y)"

definition lift_num :: "pyexc + pynum \<Rightarrow> pyexc + pyval" where
  "lift_num r = (case r of Inl e \<Rightarrow> Inl e | Inr n \<Rightarrow> Inr (num_val n))"

definition is_sequence :: "pyval \<Rightarrow> bool" where
  "is_sequence v = (case v of VStr s \<Rightarrow> True | VList xs \<Rightarrow> True | VTuple xs \<Rightarrow> True | _ \<Rightarrow> False)"

definition py_add :: "pyval \<Rightarrow> pyval \<Rightarrow> pyexc + pyval" where
  "py_add a b =
     (case (as_num a, as_num b) of
        (Some x, Some y) \<Rightarrow> Inr (num_val (num_add x y))
      | _ \<Rightarrow>
        (case (a, b) of
           (VStr s, VStr t) \<Rightarrow> Inr (VStr (s @ t))
         | (VList xs, VList ys) \<Rightarrow> Inr (VList (xs @ ys))
         | (VTuple xs, VTuple ys) \<Rightarrow> Inr (VTuple (xs @ ys))
         | _ \<Rightarrow>
           (if is_sequence a
            then Inl (TypeError (''can only concatenate '' @ type_name a @ '' (not '' @
                        [CHR 0x22] @ type_name b @ [CHR 0x22] @ '') to '' @ type_name a))
            else Inl (unsupported_operand ''+'' a b))))"

definition py_sub :: "pyval \<Rightarrow> pyval \<Rightarrow> pyexc + pyval" where
  "py_sub a b =
     (case (as_num a, as_num b) of
        (Some x, Some y) \<Rightarrow> Inr (num_val (num_sub x y))
      | _ \<Rightarrow> Inl (unsupported_operand ''-'' a b))"

text \<open>A sequence times an \<open>int\<close> count (\<open>bool\<close> included) repeats it; a count below one gives
  the empty sequence.\<close>

definition repeat_seq :: "pyval \<Rightarrow> int \<Rightarrow> pyval" where
  "repeat_seq v n =
     (case v of
        VStr s \<Rightarrow> VStr (concat (replicate (nat n) s))
      | VList xs \<Rightarrow> VList (concat (replicate (nat n) xs))
      | VTuple xs \<Rightarrow> VTuple (concat (replicate (nat n) xs))
      | _ \<Rightarrow> v)"

definition cant_multiply :: "pyval \<Rightarrow> pyexc" where
  "cant_multiply b =
     TypeError (''can't multiply sequence by non-int of type '' @ quoted (type_name b))"

definition py_mul :: "pyval \<Rightarrow> pyval \<Rightarrow> pyexc + pyval" where
  "py_mul a b =
     (case (as_num a, as_num b) of
        (Some x, Some y) \<Rightarrow> Inr (num_val (num_mul x y))
      | (None, Some (NI n)) \<Rightarrow>
          (if is_sequence a then Inr (repeat_seq a n) else Inl (unsupported_operand ''*'' a b))
      | (Some (NI n), None) \<Rightarrow>
          (if is_sequence b then Inr (repeat_seq b n) else Inl (unsupported_operand ''*'' a b))
      | (None, _) \<Rightarrow>
          (if is_sequence a then Inl (cant_multiply b)
           else if is_sequence b then Inl (cant_multiply a)
           else Inl (unsupported_operand ''*'' a b))
      | (_, None) \<Rightarrow>
          (if is_sequence b then Inl (cant_multiply a)
           else Inl (unsupported_operand ''*'' a b)))"

definition py_truediv :: "pyval \<Rightarrow> pyval \<Rightarrow> pyexc + pyval" where
  "py_truediv a b =
     (case (as_num a, as_num b) of
        (Some x, Some y) \<Rightarrow> lift_num (num_truediv x y)
      | _ \<Rightarrow> Inl (unsupported_operand ''/'' a b))"

definition py_floordiv :: "pyval \<Rightarrow> pyval \<Rightarrow> pyexc + pyval" where
  "py_floordiv a b =
     (case (as_num a, as_num b) of
        (Some x, Some y) \<Rightarrow> lift_num (num_floordiv x y)
      | _ \<Rightarrow> Inl (unsupported_operand ''//'' a b))"

text \<open>A string on the left of \<open>%\<close> is a format string: one without a conversion specifier
  accepts an empty tuple or a list and is returned as it is.\<close>

definition py_mod :: "pyval \<Rightarrow> pyval \<Rightarrow> pyexc + pyval" where
  "py_mod a b =
     (case (as_num a, as_num b) of
        (Some x, Some y) \<Rightarrow> lift_num (num_mod x y)
      | _ \<Rightarrow>
        (case a of
           VStr s \<Rightarrow>
             (if CHR ''%'' \<in> set s then Inl (ValueError ''unsupported format character'')
              else (case b of
                      VTuple [] \<Rightarrow> Inr (VStr s)
                    | VList xs \<Rightarrow> Inr (VStr s)
                    | _ \<Rightarrow> Inl (TypeError ''not all arguments converted during string formatting'')))
         | _ \<Rightarrow> Inl (unsupported_operand ''%'' a b)))"

definition py_pow :: "pyval \<Rightarrow> pyval \<Rightarrow> pyexc + pyval" where
  "py_pow a b =
     (case (as_num a, as_num b) of
        (Some x, Some y) \<Rightarrow> num_pow x y
      | _ \<Rightarrow> Inl (unsupported_operand ''** or pow()'' a b))"

text \<open>Unary plus and minus: numbers only (\<open>bool\<close> becomes \<open>int\<close>).\<close>

definition bad_unary :: "string \<Rightarrow> pyval \<Rightarrow> pyexc" where
  "bad_unary opname v =
     TypeError (''bad operand type for unary '' @ opname @ '': '' @ quoted (type_name v))"

definition py_pos :: "pyval \<Rightarrow> pyexc + pyval" where
  "py_pos v =
     (case as_num v of
        Some n \<Rightarrow> Inr (num_val n)
      | None \<Rightarrow> (case v of VComplex c \<Rightarrow> Inr (VComplex c) | _ \<Rightarrow> Inl (bad_unary ''+'' v)))"

definition py_neg :: "pyval \<Rightarrow> pyexc + pyval" where
  "py_neg v =
     (case as_num v of
        Some (NI i) \<Rightarrow> Inr (VInt (- i))
      | Some (NF r) \<Rightarrow> Inr (VFloat (- r))
      | None \<Rightarrow> (case v of VComplex c \<Rightarrow> Inr (VComplex (- c)) | _ \<Rightarrow> Inl (bad_unary ''-'' v)))"

text \<open>
  Equality never raises: numbers compare by value across \<open>int\<close>, \<open>bool\<close>, \<open>float\<close> and
  \<open>complex\<close>, sequences of one kind element by element. Two exception instances are
  distinct objects.
\<close>

fun as_complex :: "pyval \<Rightarrow> complex option" where
  "as_complex (VInt i) = Some (of_int i)"
| "as_complex (VBool b) = Some (if b then 1 else 0)"
| "as_complex (VFloat r) = Some (of_real r)"
| "as_complex (VComplex c) = Some c"
| "as_complex v = None"

fun py_eq :: "pyval \<Rightarrow> pyval \<Rightarrow> bool"
  and py_eq_list :: "pyval list \<Rightarrow> pyval list \<Rightarrow> bool" where
  "py_eq (VList xs) (VList ys) = py_eq_list xs ys"
| "py_eq (VTuple xs) (VTuple ys) = py_eq_list xs ys"
| "py_eq (VStr s) (VStr t) = (s = t)"
| "py_eq VNone VNone = True"
| "py_eq a b =
     (case (as_complex a, as_complex b) of (Some x, Some y) \<Rightarrow> x = y | _ \<Rightarrow> False)"
| "py_eq_list [] [] = True"
| "py_eq_list (x # xs) (y # ys) = (py_eq x y \<and> py_eq_list xs ys)"
| "py_eq_list xs ys = False"

text \<open>
  Ordering: numbers by value, strings and sequences of one kind lexicographically (the
  first pair of unequal elements decides, else the lengths); anything else raises
  \<open>TypeError\<close>. The three-way result is \<open>-1\<close>, \<open>0\<close> or \<open>1\<close>.
\<close>

datatype ordop = OLt | OLtE | OGt | OGtE

fun holds :: "ordop \<Rightarrow> int \<Rightarrow> bool" where
  "holds OLt c = (c < 0)"
| "holds OLtE c = (c \<le> 0)"
| "holds OGt c = (0 < c)"
| "holds OGtE c = (0 \<le> c)"

fun ordop_sym :: "ordop \<Rightarrow> string" where
  "ordop_sym OLt = ''<''"
| "ordop_sym OLtE = ''<=''"
| "ordop_sym OGt = ''>''"
| "ordop_sym OGtE = ''>=''"

definition cmp3 :: "'a::linorder \<Rightarrow> 'a \<Rightarrow> int" where
  "cmp3 x y = (if x < y then - 1 else if x = y then 0 else 1)"

fun str_cmp :: "string \<Rightarrow> string \<Rightarrow> int" where
  "str_cmp [] [] = 0"
| "str_cmp [] (d # t) = - 1"
| "str_cmp (c # s) [] = 1"
| "str_cmp (c # s) (d # t) =
     (if c = d then str_cmp s t else cmp3 (of_char c :: nat) (of_char d))"

definition not_supported :: "ordop \<Rightarrow> pyval \<Rightarrow> pyval \<Rightarrow> pyexc" where
  "not_supported opr a b =
     TypeError (quoted (ordop_sym opr) @ '' not supported between instances of '' @
                quoted (type_name a) @ '' and '' @ quoted (type_name b))"

fun py_order :: "ordop \<Rightarrow> pyval \<Rightarrow> pyval \<Rightarrow> pyexc + bool"
  and py_order_list :: "ordop \<Rightarrow> pyval list \<Rightarrow> pyval list \<Rightarrow> pyexc + bool" where
  "py_order opr (VList xs) (VList ys) = py_order_list opr xs ys"
| "py_order opr (VTuple xs) (VTuple ys) = py_order_list opr xs ys"
| "py_order opr (VStr s) (VStr t) = Inr (holds opr (str_cmp s t))"
| "py_order opr a b =
     (case (as_num a, as_num b) of
        (Some x, Some y) \<Rightarrow> Inr (holds opr (cmp3 (num_real x) (num_real y)))
      | _ \<Rightarrow> Inl (not_supported opr a b))"
| "py_order_list opr [] [] = Inr (holds opr 0)"
| "py_order_list opr [] (y # ys) = Inr (holds opr (- 1))"
| "py_order_list opr (x # xs) [] = Inr (holds opr 1)"
| "py_order_list opr (x # xs) (y # ys) =
     (if py_eq x y then py_order_list opr xs ys else py_order opr x y)"

section \<open>The expression tree\<close>

text \<open>
  The node classes of the host's \<^verbatim>\<open>ast\<close> module that the evaluator names, with their
  fields. A \<open>Call\<close> keeps its keyword arguments (name, value; no name for \<^verbatim>\<open>**kw\<close>).
  Every other node class is \<open>Other\<close> with its class name: the evaluator reads nothing else
  of such a node. \<open>Not_op\<close> and \<open>Pow_op\<close> are the classes \<^verbatim>\<open>Not\<close> and \<^verbatim>\<open>Pow\<close>. The root
  \<^verbatim>\<open>Expression\<close> node is left out, \<^verbatim>\<open>visit_Expression\<close> visiting its body; so is the
  \<^verbatim>\<open>Num\<close> node of older hosts, for which \<^verbatim>\<open>visit_Num\<close> does what \<^verbatim>\<open>visit_Constant\<close> does.
\<close>

datatype unaryop = UAdd | USub | Not_op | Invert

datatype operator =
  Add | Sub | Mult | MatMult | Div | Mod | Pow_op | LShift | RShift | BitOr | BitXor | BitAnd
  | FloorDiv

datatype boolop = And | Or

datatype cmpop = Eq | NotEq | Lt | LtE | Gt | GtE | Is | IsNot | In | NotIn

datatype expr =
    Constant pyval
  | Name string
  | UnaryOp unaryop expr
  | BinOp expr operator expr
  | BoolOp boolop "expr list"
  | Compare expr "cmpop list" "expr list"
  | Call expr "expr list" "(string option \<times> expr) list"
  | List "expr list"
  | Tuple "expr list"
  | Other string

section \<open>SafeEvaluator\<close>

text \<open>
  Evaluation threads the state of the host's random generator (\<open>rng\<close>, the stream of its
  future raw draws), the only state a call can change, and returns either the exception
  raised or the value, with the state reached.
\<close>

type_synonym rng = "nat \<Rightarrow> nat"

type_synonym callable = "pyval list \<Rightarrow> rng \<Rightarrow> (pyexc + pyval) \<times> rng"

type_synonym funcs = "string \<Rightarrow> callable option"

type_synonym names = "string \<Rightarrow> pyval option"

text \<open>\<^verbatim>\<open>str.lower()\<close> on the ASCII letters.\<close>

definition lower_char :: "char \<Rightarrow> char" where
  "lower_char c =
     (let n = (of_char c :: nat) in if 65 \<le> n \<and> n \<le> 90 then char_of (n + 32) else c)"

definition lower :: "string \<Rightarrow> string" where
  "lower s = map lower_char s"

text \<open>The text of an operator object inside a message (its address left out).\<close>

fun unaryop_name :: "unaryop \<Rightarrow> string" where
  "unaryop_name UAdd = ''UAdd''"
| "unaryop_name USub = ''USub''"
| "unaryop_name Not_op = ''Not''"
| "unaryop_name Invert = ''Invert''"

fun operator_name :: "operator \<Rightarrow> string" where
  "operator_name Add = ''Add''"
| "operator_name Sub = ''Sub''"
| "operator_name Mult = ''Mult''"
| "operator_name MatMult = ''MatMult''"
| "operator_name Div = ''Div''"
| "operator_name Mod = ''Mod''"
| "operator_name Pow_op = ''Pow''"
| "operator_name LShift = ''LShift''"
| "operator_name RShift = ''RShift''"
| "operator_name BitOr = ''BitOr''"
| "operator_name BitXor = ''BitXor''"
| "operator_name BitAnd = ''BitAnd''"
| "operator_name FloorDiv = ''FloorDiv''"

definition repr_node :: "string \<Rightarrow> string" where
  "repr_node cls = ''<ast.'' @ cls @ '' object>''"

text \<open>\<^verbatim>\<open>visit_UnaryOp\<close>, after the operand is evaluated. An exception of \<open>+\<close> or \<open>-\<close> is not
  caught here.\<close>

definition visit_UnaryOp :: "unaryop \<Rightarrow> pyval \<Rightarrow> pyexc + pyval" where
  "visit_UnaryOp opr operand =
     (if opr = UAdd then py_pos operand
      else if opr = USub then py_neg operand
      else if opr = Not_op then Inr (VBool (\<not> truthy operand))
      else Inl (EvalError (''Unsupported unary operator: '' @ repr_node (unaryop_name opr))))"

text \<open>The table \<^verbatim>\<open>ops\<close> of \<^verbatim>\<open>visit_BinOp\<close>.\<close>

fun ops :: "operator \<Rightarrow> (pyval \<Rightarrow> pyval \<Rightarrow> pyexc + pyval) option" where
  "ops Add = Some py_add"
| "ops Sub = Some py_sub"
| "ops Mult = Some py_mul"
| "ops Div = Some py_truediv"
| "ops FloorDiv = Some py_floordiv"
| "ops Mod = Some py_mod"
| "ops Pow_op = Some py_pow"
| "ops opr = None"

text \<open>\<^verbatim>\<open>visit_BinOp\<close>, after both operands are evaluated.\<close>

definition visit_BinOp :: "pyval \<Rightarrow> operator \<Rightarrow> pyval \<Rightarrow> pyexc + pyval" where
  "visit_BinOp left opr right =
     (case ops opr of
        Some fn \<Rightarrow>
          (case fn left right of
             Inr v \<Rightarrow> Inr v
           | Inl (ZeroDivisionError m) \<Rightarrow> Inl (EvalError ''Division by zero'')
           | Inl e \<Rightarrow> Inl (EvalError (exc_str e)))
      | None \<Rightarrow> Inl (EvalError (''Unsupported binary operator: '' @ repr_node (operator_name opr))))"

text \<open>\<^verbatim>\<open>visit_BoolOp\<close>, after every operand is evaluated: \<^verbatim>\<open>all(vals)\<close> or \<^verbatim>\<open>any(vals)\<close>.\<close>

definition visit_BoolOp :: "boolop \<Rightarrow> pyval list \<Rightarrow> pyexc + pyval" where
  "visit_BoolOp opr vals =
     (if opr = And then Inr (VBool (list_all truthy vals))
      else if opr = Or then Inr (VBool (list_ex truthy vals))
      else Inl (EvalError ''Unsupported boolean operator''))"

text \<open>
  One step of the loop of \<^verbatim>\<open>visit_Compare\<close>: \<^verbatim>\<open>result = result and (left <op> right)\<close>.
  The host's \<^verbatim>\<open>and\<close> does not evaluate the comparison when \<open>result\<close> is already false.
\<close>

definition compare_step :: "cmpop \<Rightarrow> bool \<Rightarrow> pyval \<Rightarrow> pyval \<Rightarrow> pyexc + bool" where
  "compare_step opr result left right =
     (if opr = Eq then (if result then Inr (py_eq left right) else Inr result)
      else if opr = NotEq then (if result then Inr (\<not> py_eq left right) else Inr result)
      else if opr = Lt then (if result then py_order OLt left right else Inr result)
      else if opr = LtE then (if result then py_order OLtE left right else Inr result)
      else if opr = Gt then (if result then py_order OGt left right else Inr result)
      else if opr = GtE then (if result then py_order OGtE left right else Inr result)
      else Inl (EvalError ''Unsupported comparison''))"

text \<open>\<^verbatim>\<open>visit_Name\<close>.\<close>

definition visit_Name :: "names \<Rightarrow> string \<Rightarrow> pyexc + pyval" where
  "visit_Name nms ident =
     (case nms (lower ident) of
        Some v \<Rightarrow> Inr v
      | None \<Rightarrow> Inl (EvalError (''Unknown name: '' @ ident)))"

text \<open>The call \<^verbatim>\<open>fn(*args)\<close> of \<^verbatim>\<open>visit_Call\<close> inside its \<^verbatim>\<open>try\<close>.\<close>

definition call_function :: "callable \<Rightarrow> pyval list \<Rightarrow> rng \<Rightarrow> (pyexc + pyval) \<times> rng" where
  "call_function fn args s =
     (case fn args s of
        (Inr v, s') \<Rightarrow> (Inr v, s')
      | (Inl (TypeError m), s') \<Rightarrow> (Inl (EvalError (''Function call error: '' @ m)), s')
      | (Inl e, s') \<Rightarrow> (Inl (EvalError (exc_str e)), s'))"

text \<open>
  \<^verbatim>\<open>SafeEvaluator.visit\<close> with its \<^verbatim>\<open>visit_*\<close> methods and \<^verbatim>\<open>generic_visit\<close>. \<open>visit_list\<close> is
  the comprehension \<^verbatim>\<open>[self.visit(v) for v in vs]\<close>; \<open>compare_loop\<close> is the \<^verbatim>\<open>for\<close> loop of
  \<^verbatim>\<open>visit_Compare\<close> over \<^verbatim>\<open>zip(node.ops, node.comparators)\<close>.
\<close>

fun visit :: "funcs \<Rightarrow> names \<Rightarrow> expr \<Rightarrow> rng \<Rightarrow> (pyexc + pyval) \<times> rng"
  and visit_list :: "funcs \<Rightarrow> names \<Rightarrow> expr list \<Rightarrow> rng \<Rightarrow> (pyexc + pyval list) \<times> rng"
  and compare_loop ::
    "funcs \<Rightarrow> names \<Rightarrow> pyval \<Rightarrow> bool \<Rightarrow> cmpop list \<Rightarrow> expr list \<Rightarrow> rng \<Rightarrow> (pyexc + pyval) \<times> rng"
where
  "visit F N (Constant v) s = (Inr v, s)"
| "visit F N (Name ident) s = (visit_Name N ident, s)"
| "visit F N (UnaryOp opr operand) s =
     (case visit F N operand s of
        (Inl e, s1) \<Rightarrow> (Inl e, s1)
      | (Inr v, s1) \<Rightarrow> (visit_UnaryOp opr v, s1))"
| "visit F N (BinOp l opr r) s =
     (case visit F N l s of
        (Inl e, s1) \<Rightarrow> (Inl e, s1)
      | (Inr left, s1) \<Rightarrow>
          (case visit F N r s1 of
             (Inl e, s2) \<Rightarrow> (Inl e, s2)
           | (Inr right, s2) \<Rightarrow> (visit_BinOp left opr right, s2)))"
| "visit F N (BoolOp opr vs) s =
     (case visit_list F N vs s of
        (Inl e, s1) \<Rightarrow> (Inl e, s1)
      | (Inr vals, s1) \<Rightarrow> (visit_BoolOp opr vals, s1))"
| "visit F N (Compare l cmpops comparators) s =
     (case visit F N l s of
        (Inl e, s1) \<Rightarrow> (Inl e, s1)
      | (Inr left, s1) \<Rightarrow> compare_loop F N left True cmpops comparators s1)"
| "visit F N (Call func args keywords) s =
     (case func of
        Name ident \<Rightarrow>
          (let fname = lower ident in
           case F fname of
             None \<Rightarrow> (Inl (EvalError (''Unknown function: '' @ fname)), s)
           | Some fn \<Rightarrow>
               (case visit_list F N args s of
                  (Inl e, s1) \<Rightarrow> (Inl e, s1)
                | (Inr vals, s1) \<Rightarrow> call_function fn vals s1))
      | _ \<Rightarrow> (Inl (EvalError ''Only direct function calls allowed''), s))"
| "visit F N (List elts) s =
     (case visit_list F N elts s of
        (Inl e, s1) \<Rightarrow> (Inl e, s1)
      | (Inr vals, s1) \<Rightarrow> (Inr (VList vals), s1))"
| "visit F N (Tuple elts) s =
     (case visit_list F N elts s of
        (Inl e, s1) \<Rightarrow> (Inl e, s1)
      | (Inr vals, s1) \<Rightarrow> (Inr (VTuple vals), s1))"
| "visit F N (Other cls) s = (Inl (EvalError (''Unsupported expression: '' @ cls)), s)"
| "visit_list F N [] s = (Inr [], s)"
| "visit_list F N (v # vs) s =
     (case visit F N v s of
        (Inl e, s1) \<Rightarrow> (Inl e, s1)
      | (Inr x, s1) \<Rightarrow>
          (case visit_list F N vs s1 of
             (Inl e, s2) \<Rightarrow> (Inl e, s2)
           | (Inr xs, s2) \<Rightarrow> (Inr (x # xs), s2)))"
| "compare_loop F N left result [] comparators s = (Inr (VBool result), s)"
| "compare_loop F N left result (opr # cmpops) [] s = (Inr (VBool result), s)"
| "compare_loop F N left result (opr # cmpops) (comparator # comparators) s =
     (case visit F N comparator s of
        (Inl e, s1) \<Rightarrow> (Inl e, s1)
      | (Inr right, s1) \<Rightarrow>
          (case compare_step opr result left right of
             Inl e \<Rightarrow> (Inl e, s1)
           | Inr result' \<Rightarrow> compare_loop F N right result' cmpops comparators s1))"

section \<open>Host library functions\<close>

text \<open>
  Modelled from the spec: the functions of the host's \<^verbatim>\<open>math\<close>, \<^verbatim>\<open>statistics\<close> and
  \<^verbatim>\<open>random\<close> modules and the builtins that the function table of section 4.4 exposes are
  not code of the repository. Each is given on the values above, raising the host's
  exception where the host raises. Floating point is idealised: the trigonometric
  functions, logarithms and roots are the real ones, and the tangent has no value where
  the cosine is zero.
\<close>

definition to_float :: "pyval \<Rightarrow> pyexc + real" where
  "to_float v =
     (case as_num v of
        Some n \<Rightarrow> Inr (num_real n)
      | None \<Rightarrow> Inl (TypeError (''must be real number, not '' @ type_name v)))"

definition math_domain_error :: pyexc where
  "math_domain_error = ValueError ''math domain error''"

definition math_sin :: "pyval \<Rightarrow> pyexc + pyval" where
  "math_sin v = (case to_float v of Inl e \<Rightarrow> Inl e | Inr r \<Rightarrow> Inr (VFloat (sin r)))"

definition math_cos :: "pyval \<Rightarrow> pyexc + pyval" where
  "math_cos v = (case to_float v of Inl e \<Rightarrow> Inl e | Inr r \<Rightarrow> Inr (VFloat (cos r)))"

definition math_tan :: "pyval \<Rightarrow> pyexc + pyval" where
  "math_tan v =
     (case to_float v of
        Inl e \<Rightarrow> Inl e
      | Inr r \<Rightarrow> if cos r = 0 then Inl math_domain_error else Inr (VFloat (sin r / cos r)))"

definition math_radians :: "pyval \<Rightarrow> pyexc + pyval" where
  "math_radians v = (case to_float v of Inl e \<Rightarrow> Inl e | Inr r \<Rightarrow> Inr (VFloat (r * (pi / 180))))"

definition math_sqrt :: "pyval \<Rightarrow> pyexc + pyval" where
  "math_sqrt v =
     (case to_float v of
        Inl e \<Rightarrow> Inl e
      | Inr r \<Rightarrow> if r < 0 then Inl math_domain_error else Inr (VFloat (sqrt r)))"

definition math_log10 :: "pyval \<Rightarrow> pyexc + pyval" where
  "math_log10 v =
     (case to_float v of
        Inl e \<Rightarrow> Inl e
      | Inr r \<Rightarrow> if r \<le> 0 then Inl math_domain_error else Inr (VFloat (log 10 r)))"

definition natural_log :: "pyval \<Rightarrow> pyexc + real" where
  "natural_log v =
     (case to_float v of
        Inl e \<Rightarrow> Inl e
      | Inr r \<Rightarrow> if r \<le> 0 then Inl math_domain_error else Inr (ln r))"

text \<open>\<^verbatim>\<open>math.log(x[, base])\<close>: one or two arguments.\<close>

definition math_log :: "pyval list \<Rightarrow> pyexc + pyval" where
  "math_log args =
     (case args of
        [x] \<Rightarrow> (case natural_log x of Inl e \<Rightarrow> Inl e | Inr n \<Rightarrow> Inr (VFloat n))
      | [x, b] \<Rightarrow>
          (case natural_log x of
             Inl e \<Rightarrow> Inl e
           | Inr n \<Rightarrow>
               (case natural_log b of
                  Inl e \<Rightarrow> Inl e
                | Inr d \<Rightarrow>
                    if d = 0 then Inl (ZeroDivisionError ''float division by zero'')
                    else Inr (VFloat (n / d))))
      | _ \<Rightarrow> Inl (TypeError ''math.log requires 1 to 2 arguments''))"

text \<open>The statistics functions take real numbers; a result over \<open>int\<close> data that is a whole
  number stays an \<open>int\<close>.\<close>

fun nums_of :: "pyval list \<Rightarrow> pyexc + pynum list" where
  "nums_of [] = Inr []"
| "nums_of (v # vs) =
     (case as_num v of
        None \<Rightarrow>
          Inl (TypeError (''can't convert type '' @ quoted (type_name v) @
                          '' to numerator/denominator''))
      | Some n \<Rightarrow> (case nums_of vs of Inl e \<Rightarrow> Inl e | Inr ns \<Rightarrow> Inr (n # ns)))"

fun is_NI :: "pynum \<Rightarrow> bool" where
  "is_NI (NI i) = True"
| "is_NI (NF r) = False"

definition convert_result :: "pynum list \<Rightarrow> real \<Rightarrow> pyval" where
  "convert_result ns r =
     (if list_all is_NI ns \<and> r = of_int \<lfloor>r\<rfloor> then VInt \<lfloor>r\<rfloor> else VFloat r)"

definition real_mean :: "pynum list \<Rightarrow> real" where
  "real_mean ns = sum_list (map num_real ns) / real (length ns)"

definition real_variance :: "pynum list \<Rightarrow> real" where
  "real_variance ns =
     sum_list (map (\<lambda>n. (num_real n - real_mean ns)\<^sup>2) ns) / real (length ns - 1)"

definition statistics_mean :: "pyval list \<Rightarrow> pyexc + pyval" where
  "statistics_mean data =
     (if data = [] then Inl (StatisticsError ''mean requires at least one data point'')
      else case nums_of data of
             Inl e \<Rightarrow> Inl e
           | Inr ns \<Rightarrow> Inr (convert_result ns (real_mean ns)))"

definition statistics_variance :: "pyval list \<Rightarrow> pyexc + pyval" where
  "statistics_variance data =
     (if length data < 2
      then Inl (StatisticsError ''variance requires at least two data points'')
      else case nums_of data of
             Inl e \<Rightarrow> Inl e
           | Inr ns \<Rightarrow> Inr (convert_result ns (real_variance ns)))"

definition statistics_stdev :: "pyval list \<Rightarrow> pyexc + pyval" where
  "statistics_stdev data =
     (if length data < 2
      then Inl (StatisticsError ''stdev requires at least two data points'')
      else case nums_of data of
             Inl e \<Rightarrow> Inl e
           | Inr ns \<Rightarrow> Inr (VFloat (sqrt (real_variance ns))))"

text \<open>\<^verbatim>\<open>sorted(data)\<close>, stable, comparing with \<open><\<close>.\<close>

fun insert_sorted :: "pyval \<Rightarrow> pyval list \<Rightarrow> pyexc + pyval list" where
  "insert_sorted x [] = Inr [x]"
| "insert_sorted x (y # ys) =
     (case py_order OLt y x of
        Inl e \<Rightarrow> Inl e
      | Inr True \<Rightarrow> (case insert_sorted x ys of Inl e \<Rightarrow> Inl e | Inr zs \<Rightarrow> Inr (y # zs))
      | Inr False \<Rightarrow> Inr (x # y # ys))"

fun sorted_py :: "pyval list \<Rightarrow> pyexc + pyval list" where
  "sorted_py [] = Inr []"
| "sorted_py (x # xs) =
     (case sorted_py xs of Inl e \<Rightarrow> Inl e | Inr ys \<Rightarrow> insert_sorted x ys)"

definition statistics_median :: "pyval list \<Rightarrow> pyexc + pyval" where
  "statistics_median data =
     (case sorted_py data of
        Inl e \<Rightarrow> Inl e
      | Inr d \<Rightarrow>
          (let n = length d in
           if n = 0 then Inl (StatisticsError ''no median for empty data'')
           else if n mod 2 = 1 then Inr (d ! (n div 2))
           else (case py_add (d ! (n div 2 - 1)) (d ! (n div 2)) of
                   Inl e \<Rightarrow> Inl e
                 | Inr t \<Rightarrow> py_truediv t (VInt 2))))"

text \<open>
  \<^verbatim>\<open>statistics.mode\<close> of the host library, as it is on the hosts whose parser builds
  \<open>Constant\<close> nodes (version 3.8 and later): the first of the most common values in the
  order of the data, and \<open>StatisticsError\<close> for empty data only. Values are counted up
  to equality; a list cannot be counted.
\<close>

fun hashable :: "pyval \<Rightarrow> bool" where
  "hashable (VList xs) = False"
| "hashable (VTuple xs) = list_all hashable xs"
| "hashable v = True"

definition count_eq :: "pyval \<Rightarrow> pyval list \<Rightarrow> nat" where
  "count_eq v data = length (filter (py_eq v) data)"

fun distinct_values :: "pyval list \<Rightarrow> pyval list \<Rightarrow> pyval list" where
  "distinct_values seen [] = rev seen"
| "distinct_values seen (v # vs) =
     (if list_ex (py_eq v) seen then distinct_values seen vs
      else distinct_values (v # seen) vs)"

definition most_common :: "pyval list \<Rightarrow> pyval list" where
  "most_common data =
     (let keys = distinct_values [] data;
          top = fold max (map (\<lambda>k. count_eq k data) keys) 0
      in filter (\<lambda>k. count_eq k data = top) keys)"

definition statistics_mode :: "pyval list \<Rightarrow> pyexc + pyval" where
  "statistics_mode data =
     (case filter (\<lambda>v. \<not> hashable v) data of
        u # us \<Rightarrow> Inl (TypeError (''unhashable type: '' @ quoted (type_name u)))
      | [] \<Rightarrow>
          (case most_common data of
             [] \<Rightarrow> Inl (StatisticsError ''no mode for empty data'')
           | v # vs \<Rightarrow> Inr v))"

text \<open>\<^verbatim>\<open>min\<close> and \<^verbatim>\<open>max\<close> of one iterable: the first least (greatest) element.\<close>

fun best_of :: "ordop \<Rightarrow> pyval \<Rightarrow> pyval list \<Rightarrow> pyexc + pyval" where
  "best_of opr best [] = Inr best"
| "best_of opr best (x # xs) =
     (case py_order opr x best of
        Inl e \<Rightarrow> Inl e
      | Inr b \<Rightarrow> best_of opr (if b then x else best) xs)"

definition builtin_min :: "pyval list \<Rightarrow> pyexc + pyval" where
  "builtin_min xs =
     (case xs of
        [] \<Rightarrow> Inl (ValueError ''min() arg is an empty sequence'')
      | x # rest \<Rightarrow> best_of OLt x rest)"

definition builtin_max :: "pyval list \<Rightarrow> pyexc + pyval" where
  "builtin_max xs =
     (case xs of
        [] \<Rightarrow> Inl (ValueError ''max() arg is an empty sequence'')
      | x # rest \<Rightarrow> best_of OGt x rest)"

text \<open>A call with the wrong number of positional arguments raises \<open>TypeError\<close>; the host's
  message names the counts, and its wording is not modelled further.\<close>

definition arity_error :: "string \<Rightarrow> pyexc" where
  "arity_error fname = TypeError (fname @ ''() called with a wrong number of arguments'')"

definition builtin_abs :: "pyval list \<Rightarrow> pyexc + pyval" where
  "builtin_abs args =
     (case args of
        [v] \<Rightarrow>
          (case as_num v of
             Some (NI i) \<Rightarrow> Inr (VInt \<bar>i\<bar>)
           | Some (NF r) \<Rightarrow> Inr (VFloat \<bar>r\<bar>)
           | None \<Rightarrow>
               (case v of
                  VComplex c \<Rightarrow> Inr (VFloat (cmod c))
                | _ \<Rightarrow> Inl (TypeError (''bad operand type for abs(): '' @ quoted (type_name v)))))
      | _ \<Rightarrow> Inl (arity_error ''abs''))"

text \<open>\<^verbatim>\<open>round\<close> rounds half to even; with a second argument it keeps that many decimal
  digits and the type of its first argument.\<close>

definition round_half_even :: "real \<Rightarrow> int" where
  "round_half_even r =
     (let f = \<lfloor>r\<rfloor>; d = r - of_int f in
      if d < 1 / 2 then f else if 1 / 2 < d then f + 1 else if even f then f else f + 1)"

definition round_digits :: "real \<Rightarrow> int \<Rightarrow> real" where
  "round_digits r nd = of_int (round_half_even (r * 10 powi nd)) / 10 powi nd"

definition as_index :: "pyval \<Rightarrow> pyexc + int" where
  "as_index v =
     (case v of
        VInt i \<Rightarrow> Inr i
      | VBool b \<Rightarrow> Inr (if b then 1 else 0)
      | _ \<Rightarrow> Inl (TypeError (quoted (type_name v) @ '' object cannot be interpreted as an integer'')))"

definition round_number :: "pyval \<Rightarrow> pyval \<Rightarrow> pyexc + pyval" where
  "round_number v ndigits =
     (case as_num v of
        None \<Rightarrow> Inl (TypeError (''type '' @ type_name v @ '' doesn't define __round__ method''))
      | Some (NI i) \<Rightarrow>
          (if ndigits = VNone then Inr (VInt i)
           else case as_index ndigits of
                  Inl e \<Rightarrow> Inl e
                | Inr nd \<Rightarrow>
                    if 0 \<le> nd then Inr (VInt i)
                    else Inr (VInt (round_half_even (of_int i / 10 ^ nat (- nd)) * 10 ^ nat (- nd))))
      | Some (NF r) \<Rightarrow>
          (if ndigits = VNone then Inr (VInt (round_half_even r))
           else case as_index ndigits of
                  Inl e \<Rightarrow> Inl e
                | Inr nd \<Rightarrow> Inr (VFloat (round_digits r nd))))"

definition builtin_round :: "pyval list \<Rightarrow> pyexc + pyval" where
  "builtin_round args =
     (case args of
        [v] \<Rightarrow> round_number v VNone
      | [v, ndigits] \<Rightarrow> round_number v ndigits
      | _ \<Rightarrow> Inl (arity_error ''round''))"

text \<open>\<^verbatim>\<open>int(v)\<close>: a number is truncated towards zero, a string is read as a signed decimal
  literal.\<close>

definition digit_val :: "char \<Rightarrow> nat option" where
  "digit_val c =
     (let n = (of_char c :: nat) in if 48 \<le> n \<and> n \<le> 57 then Some (n - 48) else None)"

definition is_digit :: "char \<Rightarrow> bool" where
  "is_digit c = (digit_val c \<noteq> None)"

definition digits_val :: "string \<Rightarrow> nat" where
  "digits_val ds = foldl (\<lambda>acc c. 10 * acc + (case digit_val c of Some d \<Rightarrow> d | None \<Rightarrow> 0)) 0 ds"

definition int_of_str :: "string \<Rightarrow> int option" where
  "int_of_str s =
     (case s of
        [] \<Rightarrow> None
      | c # cs \<Rightarrow>
          (let body = (if c = CHR ''-'' \<or> c = CHR ''+'' then cs else s) in
           if body \<noteq> [] \<and> list_all is_digit body
           then Some (if c = CHR ''-'' then - int (digits_val body) else int (digits_val body))
           else None))"

definition builtin_int :: "pyval \<Rightarrow> pyexc + int" where
  "builtin_int v =
     (case as_num v of
        Some (NI i) \<Rightarrow> Inr i
      | Some (NF r) \<Rightarrow> Inr (if 0 \<le> r then \<lfloor>r\<rfloor> else \<lceil>r\<rceil>)
      | None \<Rightarrow>
          (case v of
             VStr s \<Rightarrow>
               (case int_of_str s of
                  Some i \<Rightarrow> Inr i
                | None \<Rightarrow>
                    Inl (ValueError (''invalid literal for int() with base 10: '' @ quoted s)))
           | _ \<Rightarrow>
               Inl (TypeError (''int() argument must be a string, a bytes-like object or a '' @
                               ''real number, not '' @ quoted (type_name v)))))"

definition math_factorial :: "int \<Rightarrow> pyexc + pyval" where
  "math_factorial n =
     (if n < 0 then Inl (ValueError ''factorial() not defined for negative values'')
      else Inr (VInt (fact (nat n))))"

text \<open>
  \<^verbatim>\<open>random.random()\<close> takes the next raw draw as 53 random bits; \<^verbatim>\<open>random.choice(seq)\<close>
  takes the next raw draw as an index.
\<close>

definition random_random :: "rng \<Rightarrow> (pyexc + pyval) \<times> rng" where
  "random_random g = (Inr (VFloat (real (g 0 mod 2 ^ 53) / 2 ^ 53)), \<lambda>i. g (Suc i))"

definition random_choice :: "pyval list \<Rightarrow> rng \<Rightarrow> (pyexc + pyval) \<times> rng" where
  "random_choice xs g =
     (if xs = [] then (Inl (IndexError ''Cannot choose from an empty sequence''), g)
      else (Inr (xs ! (g 0 mod length xs)), \<lambda>i. g (Suc i)))"

section \<open>Host parser\<close>

text \<open>
  Modelled from the spec: \<^verbatim>\<open>ast.parse(expr, mode="eval")\<close> is the host's parser, not code
  of the repository. \<open>ast_parse\<close> is the tokenizer of section 4.1 and the grammar of
  section 4.2, building the host's node for each production: a chain of \<open>or\<close> or \<open>and\<close>
  is one \<open>BoolOp\<close>, a chain of comparisons one \<open>Compare\<close>, \<open>**\<close> binds tighter than a
  unary sign on its left and takes a signed operand on its right. As in the host, a
  primary may be followed by call, subscript and attribute trailers, a call may carry
  keyword arguments \<open>name=value\<close>, a display may end in a comma, and \<open>True\<close>, \<open>False\<close> and
  \<open>None\<close> are constants. A text outside this grammar is a \<open>SyntaxError\<close>.
\<close>

datatype token = TConst pyval | TName string | TOp string

definition is_space :: "char \<Rightarrow> bool" where
  "is_space c = (c \<in> set [CHR '' '', CHR 0x09, CHR 0x0A, CHR 0x0B, CHR 0x0C, CHR 0x0D])"

definition is_ident_start :: "char \<Rightarrow> bool" where
  "is_ident_start c =
     (let n = (of_char c :: nat) in (65 \<le> n \<and> n \<le> 90) \<or> (97 \<le> n \<and> n \<le> 122) \<or> n = 95)"

definition is_ident_char :: "char \<Rightarrow> bool" where
  "is_ident_char c = (is_ident_start c \<or> is_digit c)"

definition reserved :: "string list" where
  "reserved =
     [''and'', ''or'', ''not'', ''as'', ''assert'', ''async'', ''await'', ''break'', ''class'',
      ''continue'', ''def'', ''del'', ''elif'', ''else'', ''except'', ''finally'', ''for'',
      ''from'', ''global'', ''if'', ''import'', ''in'', ''is'', ''lambda'', ''nonlocal'',
      ''pass'', ''raise'', ''return'', ''try'', ''while'', ''with'', ''yield'']"

definition word_token :: "string \<Rightarrow> token" where
  "word_token w =
     (if w = ''True'' then TConst (VBool True)
      else if w = ''False'' then TConst (VBool False)
      else if w = ''None'' then TConst VNone
      else if w \<in> set reserved then TOp w
      else TName w)"

definition syntax_error :: pyexc where
  "syntax_error = SyntaxError ''invalid syntax''"

text \<open>A numeric literal at the head of the text: the token and the number of characters
  it takes.\<close>

definition exponent_at :: "string \<Rightarrow> (int \<times> nat) option" where
  "exponent_at s =
     (case s of
        c # r \<Rightarrow>
          (if c = CHR ''e'' \<or> c = CHR ''E'' then
             (let signed = (r \<noteq> [] \<and> (hd r = CHR ''+'' \<or> hd r = CHR ''-''));
                  ds = takeWhile is_digit (if signed then tl r else r)
              in if ds = [] then None
                 else Some (if signed \<and> hd r = CHR ''-'' then - int (digits_val ds)
                            else int (digits_val ds),
                            1 + (if signed then 1 else 0) + length ds))
           else None)
      | [] \<Rightarrow> None)"

definition number_at :: "string \<Rightarrow> pyexc + (token option \<times> nat)" where
  "number_at s =
     (let ip = takeWhile is_digit s;
          r1 = drop (length ip) s;
          has_frac = (r1 \<noteq> [] \<and> hd r1 = CHR ''.'');
          fp = (if has_frac then takeWhile is_digit (tl r1) else []);
          r2 = (if has_frac then drop (length fp) (tl r1) else r1);
          n1 = length ip + (if has_frac then 1 + length fp else 0);
          mant = real (digits_val ip) + real (digits_val fp) / 10 ^ length fp
      in case exponent_at r2 of
           Some (ex, k) \<Rightarrow> Inr (Some (TConst (VFloat (mant * 10 powi ex))), n1 + k)
         | None \<Rightarrow>
             if has_frac then Inr (Some (TConst (VFloat mant)), n1)
             else if 1 < length ip \<and> hd ip = CHR ''0'' \<and> digits_val ip \<noteq> 0
             then Inl (SyntaxError ''leading zeros in decimal integer literals are not permitted'')
             else Inr (Some (TConst (VInt (int (digits_val ip)))), n1))"

definition token_at :: "string \<Rightarrow> pyexc + (token option \<times> nat)" where
  "token_at s =
     (case s of
        [] \<Rightarrow> Inl syntax_error
      | c # cs \<Rightarrow>
          if is_space c then Inr (None, 1)
          else if is_digit c \<or> (c = CHR ''.'' \<and> cs \<noteq> [] \<and> is_digit (hd cs)) then number_at s
          else if is_ident_start c
          then (let w = takeWhile is_ident_char s in Inr (Some (word_token w), length w))
          else if take 2 s \<in> set [''**'', ''//'', ''=='', ''!='', ''<='', ''>='']
          then Inr (Some (TOp (take 2 s)), 2)
          else if c \<in> set ''+-*/%(),<>[]=.'' then Inr (Some (TOp [c]), 1)
          else Inl (SyntaxError ''invalid character''))"

fun tokenize :: "nat \<Rightarrow> string \<Rightarrow> pyexc + token list" where
  "tokenize skip [] = Inr []"
| "tokenize skip (c # cs) =
     (if 0 < skip then tokenize (skip - 1) cs
      else case token_at (c # cs) of
             Inl e \<Rightarrow> Inl e
           | Inr (t, n) \<Rightarrow>
               (case tokenize (n - 1) cs of
                  Inl e \<Rightarrow> Inl e
                | Inr ts \<Rightarrow> Inr (case t of None \<Rightarrow> ts | Some tk \<Rightarrow> tk # ts)))"

type_synonym 'a parsed = "pyexc + ('a \<times> token list)"

definition pbind :: "'a parsed \<Rightarrow> ('a \<Rightarrow> token list \<Rightarrow> 'b parsed) \<Rightarrow> 'b parsed" where
  "pbind r f = (case r of Inl e \<Rightarrow> Inl e | Inr (x, toks) \<Rightarrow> f x toks)"

definition out_of_depth :: pyexc where
  "out_of_depth = RecursionError ''maximum recursion depth exceeded during compilation''"

definition starts_with :: "string \<Rightarrow> token list \<Rightarrow> bool" where
  "starts_with w toks = (case toks of TOp v # r \<Rightarrow> v = w | _ \<Rightarrow> False)"

definition expect :: "string \<Rightarrow> 'a \<Rightarrow> token list \<Rightarrow> 'a parsed" where
  "expect w x toks = (if starts_with w toks then Inr (x, tl toks) else Inl syntax_error)"

definition closes :: "token list \<Rightarrow> bool" where
  "closes toks = (starts_with '')'' toks \<or> starts_with '']'' toks)"

fun cmpop_of :: "token list \<Rightarrow> cmpop option" where
  "cmpop_of (TOp w # r) =
     (if w = ''=='' then Some Eq else if w = ''!='' then Some NotEq
      else if w = ''<'' then Some Lt else if w = ''<='' then Some LtE
      else if w = ''>'' then Some Gt else if w = ''>='' then Some GtE else None)"
| "cmpop_of toks = None"

text \<open>The binary operators of a level: 0 is the additive, 1 the multiplicative one.\<close>

fun binop_of :: "nat \<Rightarrow> token list \<Rightarrow> operator option" where
  "binop_of lvl (TOp w # r) =
     (if lvl = 0 then (if w = ''+'' then Some Add else if w = ''-'' then Some Sub else None)
      else (if w = ''*'' then Some Mult else if w = ''/'' then Some Div
            else if w = ''//'' then Some FloorDiv else if w = ''%'' then Some Mod else None))"
| "binop_of lvl toks = None"

definition mk_bool :: "boolop \<Rightarrow> expr list \<Rightarrow> expr" where
  "mk_bool opr es = (case es of [e] \<Rightarrow> e | _ \<Rightarrow> BoolOp opr es)"

definition boolop_word :: "boolop \<Rightarrow> string" where
  "boolop_word opr = (if opr = Or then ''or'' else ''and'')"

text \<open>
  Recursive descent with the nonterminal to parse as a \<open>goal\<close>; the \<open>*Rest\<close> goals carry
  what the repetition has read so far. \<open>parse_step\<close> is one production, given the parser
  for the nested calls; \<open>parse_goal\<close> bounds the nesting and reports a text that exceeds
  the bound as the host reports its parser stack overflow.
\<close>

datatype goal =
    GBool boolop
  | GBoolRest boolop "expr list"
  | GNot
  | GCmpRest expr "cmpop list" "expr list"
  | GBin nat
  | GBinRest nat expr
  | GFactor
  | GTrailers expr
  | GAtom
  | GSeq bool "expr list"
  | GArgs expr "expr list" "(string option \<times> expr) list"

definition operand_goal :: "boolop \<Rightarrow> goal" where
  "operand_goal opr = (if opr = Or then GBool And else GNot)"

definition term_goal :: "nat \<Rightarrow> goal" where
  "term_goal lvl = (if lvl = 0 then GBin 1 else GFactor)"

definition mk_seq :: "bool \<Rightarrow> expr list \<Rightarrow> expr" where
  "mk_seq is_list es = (if is_list then List es else Tuple es)"

definition closer :: "bool \<Rightarrow> string" where
  "closer is_list = (if is_list then '']'' else '')'')"

definition is_keyword_arg :: "token list \<Rightarrow> bool" where
  "is_keyword_arg toks = (case toks of TName k # TOp w # r \<Rightarrow> w = ''='' | _ \<Rightarrow> False)"

definition keyword_name :: "token list \<Rightarrow> string" where
  "keyword_name toks = (case toks of TName k # r \<Rightarrow> k | _ \<Rightarrow> [])"

definition is_attribute :: "token list \<Rightarrow> bool" where
  "is_attribute toks = (case toks of TOp w # TName a # r \<Rightarrow> w = ''.'' | _ \<Rightarrow> False)"

fun parse_step ::
  "(goal \<Rightarrow> token list \<Rightarrow> expr parsed) \<Rightarrow> goal \<Rightarrow> token list \<Rightarrow> expr parsed" where
  "parse_step rec (GBool opr) toks =
     pbind (rec (operand_goal opr) toks) (\<lambda>e r. rec (GBoolRest opr [e]) r)"
| "parse_step rec (GBoolRest opr acc) toks =
     (if starts_with (boolop_word opr) toks
      then pbind (rec (operand_goal opr) (tl toks)) (\<lambda>e r. rec (GBoolRest opr (acc @ [e])) r)
      else Inr (mk_bool opr acc, toks))"
| "parse_step rec GNot toks =
     (if starts_with ''not'' toks
      then pbind (rec GNot (tl toks)) (\<lambda>e r. Inr (UnaryOp Not_op e, r))
      else pbind (rec (GBin 0) toks) (\<lambda>e r. rec (GCmpRest e [] []) r))"
| "parse_step rec (GCmpRest left cmpops comparators) toks =
     (case cmpop_of toks of
        Some c \<Rightarrow>
          pbind (rec (GBin 0) (tl toks))
            (\<lambda>e r. rec (GCmpRest left (cmpops @ [c]) (comparators @ [e])) r)
      | None \<Rightarrow> Inr (if cmpops = [] then left else Compare left cmpops comparators, toks))"
| "parse_step rec (GBin lvl) toks =
     pbind (rec (term_goal lvl) toks) (\<lambda>e r. rec (GBinRest lvl e) r)"
| "parse_step rec (GBinRest lvl left) toks =
     (case binop_of lvl toks of
        Some b \<Rightarrow>
          pbind (rec (term_goal lvl) (tl toks)) (\<lambda>e r. rec (GBinRest lvl (BinOp left b e)) r)
      | None \<Rightarrow> Inr (left, toks))"
| "parse_step rec GFactor toks =
     (if starts_with ''+'' toks
      then pbind (rec GFactor (tl toks)) (\<lambda>e r. Inr (UnaryOp UAdd e, r))
      else if starts_with ''-'' toks
      then pbind (rec GFactor (tl toks)) (\<lambda>e r. Inr (UnaryOp USub e, r))
      else pbind (pbind (rec GAtom toks) (\<lambda>a r. rec (GTrailers a) r))
             (\<lambda>e r. if starts_with ''**'' r
                     then pbind (rec GFactor (tl r)) (\<lambda>f r'. Inr (BinOp e Pow_op f, r'))
                     else Inr (e, r)))"
| "parse_step rec (GTrailers e) toks =
     (if starts_with ''('' toks
      then pbind (rec (GArgs e [] []) (tl toks)) (\<lambda>c r. rec (GTrailers c) r)
      else if starts_with ''['' toks
      then pbind (rec (GBool Or) (tl toks))
             (\<lambda>i r. pbind (expect '']'' () r) (\<lambda>u r'. rec (GTrailers (Other ''Subscript'')) r'))
      else if is_attribute toks then rec (GTrailers (Other ''Attribute'')) (tl (tl toks))
      else Inr (e, toks))"
| "parse_step rec GAtom toks =
     (case toks of
        TConst v # r \<Rightarrow> Inr (Constant v, r)
      | TName x # r \<Rightarrow> Inr (Name x, r)
      | TOp w # r \<Rightarrow>
          if w = ''('' then
            (if starts_with '')'' r then Inr (Tuple [], tl r)
             else pbind (rec (GBool Or) r)
                    (\<lambda>e r1. if starts_with '')'' r1 then Inr (e, tl r1)
                            else if starts_with '','' r1 then rec (GSeq False [e]) (tl r1)
                            else Inl syntax_error))
          else if w = ''['' then rec (GSeq True []) r
          else Inl syntax_error
      | [] \<Rightarrow> Inl syntax_error)"
| "parse_step rec (GSeq is_list acc) toks =
     (if starts_with (closer is_list) toks then Inr (mk_seq is_list acc, tl toks)
      else pbind (rec (GBool Or) toks)
             (\<lambda>e r. if starts_with '','' r then rec (GSeq is_list (acc @ [e])) (tl r)
                     else expect (closer is_list) (mk_seq is_list (acc @ [e])) r))"
| "parse_step rec (GArgs f args kws) toks =
     (if starts_with '')'' toks then Inr (Call f args kws, tl toks)
      else if is_keyword_arg toks
      then pbind (rec (GBool Or) (tl (tl toks)))
             (\<lambda>v r. if starts_with '','' r
                     then rec (GArgs f args (kws @ [(Some (keyword_name toks), v)])) (tl r)
                     else expect '')'' (Call f args (kws @ [(Some (keyword_name toks), v)])) r)
      else if kws \<noteq> [] then Inl (SyntaxError ''positional argument follows keyword argument'')
      else pbind (rec (GBool Or) toks)
             (\<lambda>a r. if starts_with '','' r then rec (GArgs f (args @ [a]) kws) (tl r)
                     else expect '')'' (Call f (args @ [a]) kws) r))"

primrec parse_goal :: "nat \<Rightarrow> goal \<Rightarrow> token list \<Rightarrow> expr parsed" where
  "parse_goal 0 g toks = Inl out_of_depth"
| "parse_goal (Suc n) g toks = parse_step (parse_goal n) g toks"

definition parse_tokens :: "token list \<Rightarrow> pyexc + expr" where
  "parse_tokens toks =
     (case parse_goal (16 * (length toks + 1)) (GBool Or) toks of
        Inl e \<Rightarrow> Inl e
      | Inr (e, r) \<Rightarrow> if r = [] then Inr e else Inl syntax_error)"

definition ast_parse :: "string \<Rightarrow> pyexc + expr" where
  "ast_parse source =
     (case tokenize 0 source of
        Inl e \<Rightarrow> Inl e
      | Inr toks \<Rightarrow> parse_tokens toks)"

section \<open>CalculatorEngine\<close>

text \<open>The engine object: its only field is the angle mode, \<^verbatim>\<open>"deg"\<close> or \<^verbatim>\<open>"rad"\<close>.\<close>

record CalculatorEngine =
  mode :: string

definition init :: CalculatorEngine where
  "init = \<lparr>mode = ''deg''\<rparr>"

definition set_mode :: "CalculatorEngine \<Rightarrow> string \<Rightarrow> CalculatorEngine" where
  "set_mode self m = (if m \<in> set [''deg'', ''rad''] then self\<lparr>mode := m\<rparr> else self)"

text \<open>\<^verbatim>\<open>_raise(msg)\<close>.\<close>

definition raise_EvalError :: "string \<Rightarrow> pyexc + pyval" where
  "raise_EvalError msg = Inl (EvalError msg)"

text \<open>\<^verbatim>\<open>_angle_wrapper(trig_fn)\<close>: the function of one argument that it returns.\<close>

definition angle_wrapper ::
  "CalculatorEngine \<Rightarrow> (pyval \<Rightarrow> pyexc + pyval) \<Rightarrow> pyval \<Rightarrow> pyexc + pyval" where
  "angle_wrapper self trig_fn =
     (if mode self = ''rad'' then (\<lambda>x. trig_fn x)
      else (\<lambda>x. case math_radians x of Inl e \<Rightarrow> Inl e | Inr r \<Rightarrow> trig_fn r))"

text \<open>\<^verbatim>\<open>_safe_mode(args)\<close>.\<close>

definition safe_mode :: "pyval list \<Rightarrow> pyexc + pyval" where
  "safe_mode args =
     (case statistics_mode args of
        Inl (StatisticsError m) \<Rightarrow> Inr (VStr ''No unique mode'')
      | r \<Rightarrow> r)"

text \<open>
  How a Python function object takes its positional arguments: a \<^verbatim>\<open>lambda x\<close> or
  \<^verbatim>\<open>lambda a, b\<close> takes exactly that many, a \<^verbatim>\<open>lambda *a\<close> takes them all as a tuple, and
  a function that does not use the random generator leaves its state as it is.
\<close>

definition lambda1 :: "(pyval \<Rightarrow> pyexc + pyval) \<Rightarrow> pyval list \<Rightarrow> pyexc + pyval" where
  "lambda1 f args = (case args of [x] \<Rightarrow> f x | _ \<Rightarrow> Inl (arity_error ''<lambda>''))"

definition lambda2 :: "(pyval \<Rightarrow> pyval \<Rightarrow> pyexc + pyval) \<Rightarrow> pyval list \<Rightarrow> pyexc + pyval" where
  "lambda2 f args = (case args of [a, b] \<Rightarrow> f a b | _ \<Rightarrow> Inl (arity_error ''<lambda>''))"

definition builtin1 ::
  "string \<Rightarrow> (pyval \<Rightarrow> pyexc + pyval) \<Rightarrow> pyval list \<Rightarrow> pyexc + pyval" where
  "builtin1 fname f args = (case args of [x] \<Rightarrow> f x | _ \<Rightarrow> Inl (arity_error fname))"

definition stateless :: "(pyval list \<Rightarrow> pyexc + pyval) \<Rightarrow> callable" where
  "stateless f args s = (f args, s)"

definition need2 :: "string \<Rightarrow> string" where
  "need2 what = ''Need '' @ [CHR 0xE2, CHR 0x89, CHR 0xA5] @ ''2 values for '' @ what"

text \<open>The entries of the table of \<^verbatim>\<open>_prepare_functions\<close> that are written out there.\<close>

definition fn_sec :: "CalculatorEngine \<Rightarrow> pyval \<Rightarrow> pyexc + pyval" where
  "fn_sec self x =
     (case angle_wrapper self math_cos x of Inl e \<Rightarrow> Inl e | Inr c \<Rightarrow> py_truediv (VInt 1) c)"

definition fn_csc :: "CalculatorEngine \<Rightarrow> pyval \<Rightarrow> pyexc + pyval" where
  "fn_csc self x =
     (case angle_wrapper self math_sin x of Inl e \<Rightarrow> Inl e | Inr c \<Rightarrow> py_truediv (VInt 1) c)"

definition fn_cot :: "CalculatorEngine \<Rightarrow> pyval \<Rightarrow> pyexc + pyval" where
  "fn_cot self x =
     (case angle_wrapper self math_tan x of Inl e \<Rightarrow> Inl e | Inr c \<Rightarrow> py_truediv (VInt 1) c)"

definition fn_log :: "pyval list \<Rightarrow> pyexc + pyval" where
  "fn_log a =
     (if length a = 1 then math_log10 (a ! 0)
      else case a of
             x # b # rest \<Rightarrow> math_log [x, b]
           | _ \<Rightarrow> Inl (IndexError ''tuple index out of range''))"

definition fn_mean :: "pyval list \<Rightarrow> pyexc + pyval" where
  "fn_mean a =
     (if length a \<ge> 1 then statistics_mean a else Inr (VExc (EvalError ''mean() needs args'')))"

definition fn_stdev :: "pyval list \<Rightarrow> pyexc + pyval" where
  "fn_stdev a = (if length a > 1 then statistics_stdev a else raise_EvalError (need2 ''stdev''))"

definition fn_variance :: "pyval list \<Rightarrow> pyexc + pyval" where
  "fn_variance a =
     (if length a > 1 then statistics_variance a else raise_EvalError (need2 ''variance''))"

definition fn_factorial :: "pyval \<Rightarrow> pyexc + pyval" where
  "fn_factorial n = (case builtin_int n of Inl e \<Rightarrow> Inl e | Inr i \<Rightarrow> math_factorial i)"

definition fn_rand :: callable where
  "fn_rand args s = (if args = [] then random_random s else (Inl (arity_error ''<lambda>''), s))"

definition fn_choice :: callable where
  "fn_choice a s =
     (case a of
        [VList xs] \<Rightarrow> random_choice xs s
      | [VTuple xs] \<Rightarrow> random_choice xs s
      | _ \<Rightarrow> (raise_EvalError ''choice requires a single sequence argument'', s))"

text \<open>\<^verbatim>\<open>_prepare_functions\<close>: the table from function name to function.\<close>

definition prepare_functions :: "CalculatorEngine \<Rightarrow> funcs" where
  "prepare_functions self =
     map_of
       [(''sin'', stateless (lambda1 (angle_wrapper self math_sin))),
        (''cos'', stateless (lambda1 (angle_wrapper self math_cos))),
        (''tan'', stateless (lambda1 (angle_wrapper self math_tan))),
        (''sec'', stateless (lambda1 (fn_sec self))),
        (''csc'', stateless (lambda1 (fn_csc self))),
        (''cot'', stateless (lambda1 (fn_cot self))),
        (''sqrt'', stateless (builtin1 ''math.sqrt'' math_sqrt)),
        (''log'', stateless fn_log),
        (''ln'', stateless math_log),
        (''mean'', stateless fn_mean),
        (''median'', stateless statistics_median),
        (''mode'', stateless safe_mode),
        (''std'', stateless fn_stdev),
        (''stdev'', stateless fn_stdev),
        (''variance'', stateless fn_variance),
        (''min'', stateless builtin_min),
        (''max'', stateless builtin_max),
        (''abs'', stateless builtin_abs),
        (''round'', stateless builtin_round),
        (''factorial'', stateless (lambda1 fn_factorial)),
        (''mod'', stateless (lambda2 py_mod)),
        (''rand'', fn_rand),
        (''choice'', fn_choice)]"

text \<open>\<^verbatim>\<open>_prepare_names(extra)\<close>: \<open>extra\<close> is \<^verbatim>\<open>None\<close> or the items of a dictionary, in order.\<close>

definition prepare_names :: "(string \<times> pyval) list option \<Rightarrow> names" where
  "prepare_names extra =
     (let nms = [''pi'' \<mapsto> VFloat pi, ''e'' \<mapsto> VFloat (exp 1)] in
      case extra of
        None \<Rightarrow> nms
      | Some items \<Rightarrow> fold (\<lambda>(k, v) m. m(lower k \<mapsto> v)) items nms)"

text \<open>\<^verbatim>\<open>str.replace(old, new)\<close> for an \<open>old\<close> of one character.\<close>

definition replace :: "string \<Rightarrow> char \<Rightarrow> string \<Rightarrow> string" where
  "replace s old new = concat (map (\<lambda>c. if c = old then new else [c]) s)"

text \<open>
  The body of the \<^verbatim>\<open>try\<close> of \<^verbatim>\<open>calculate\<close> and of \<^verbatim>\<open>evaluate_for_x\<close>, which differ in the
  extra names only. The parser is a parameter: \<open>parse\<close> stands for
  \<^verbatim>\<open>ast.parse(expr, mode="eval")\<close> and gives the body of the \<open>Expression\<close> node, which
  \<^verbatim>\<open>visit_Expression\<close> visits. The argument is any object, a string or not.
\<close>

type_synonym parser = "string \<Rightarrow> pyexc + expr"

definition try_evaluate ::
  "parser \<Rightarrow> CalculatorEngine \<Rightarrow> (string \<times> pyval) list option \<Rightarrow> pyval \<Rightarrow> rng
     \<Rightarrow> (pyexc + pyval) \<times> rng" where
  "try_evaluate parse self extra expression s =
     (case expression of
        VStr text \<Rightarrow>
          (let expr = replace (replace text CHR '' '' []) CHR ''^'' ''**'' in
           case parse expr of
             Inl e \<Rightarrow> (Inl e, s)
           | Inr node \<Rightarrow> visit (prepare_functions self) (prepare_names extra) node s)
      | _ \<Rightarrow> (Inl (EvalError ''Expression must be a string''), s))"

text \<open>\<^verbatim>\<open>calculate(expression)\<close> with its three \<^verbatim>\<open>except\<close> clauses.\<close>

definition calculate_with ::
  "parser \<Rightarrow> CalculatorEngine \<Rightarrow> pyval \<Rightarrow> rng \<Rightarrow> pyval \<times> rng" where
  "calculate_with parse self expression s =
     (case try_evaluate parse self None expression s of
        (Inr result, s') \<Rightarrow> (result, s')
      | (Inl (EvalError m), s') \<Rightarrow> (VStr (''Error: '' @ m), s')
      | (Inl (ZeroDivisionError m), s') \<Rightarrow> (VStr ''Division by zero'', s')
      | (Inl e, s') \<Rightarrow> (VStr ''Error'', s'))"

text \<open>\<^verbatim>\<open>evaluate_for_x(expression, x_value)\<close>: \<^verbatim>\<open>None\<close> on every exception.\<close>

definition evaluate_for_x_with ::
  "parser \<Rightarrow> CalculatorEngine \<Rightarrow> pyval \<Rightarrow> pyval \<Rightarrow> rng \<Rightarrow> pyval \<times> rng" where
  "evaluate_for_x_with parse self expression x_value s =
     (case try_evaluate parse self (Some [(''x'', x_value)]) expression s of
        (Inr result, s') \<Rightarrow> (result, s')
      | (Inl (EvalError m), s') \<Rightarrow> (VNone, s')
      | (Inl e, s') \<Rightarrow> (VNone, s'))"

text \<open>The two operations with the parser of the previous section.\<close>

definition calculate :: "CalculatorEngine \<Rightarrow> pyval \<Rightarrow> rng \<Rightarrow> pyval \<times> rng" where
  "calculate = calculate_with ast_parse"

definition evaluate_for_x :: "CalculatorEngine \<Rightarrow> pyval \<Rightarrow> pyval \<Rightarrow> rng \<Rightarrow> pyval \<times> rng" where
  "evaluate_for_x = evaluate_for_x_with ast_parse"

section \<open>Arithmetic expressions as the specification words them\<close>

text \<open>
  Following the spec's words (section 4.2), not the parser. A \<open>phrase\<close> is a derivation
  of the arithmetic part of the grammar

  \<^verbatim>\<open>Additive  := Multiplic ( ("+"|"-") Multiplic )*\<close>

  \<^verbatim>\<open>Multiplic := Unary ( ("*"|"/"|"//"|"%") Unary )*\<close>

  \<^verbatim>\<open>Unary     := ("+"|"-") Unary | Power\<close>

  \<^verbatim>\<open>Power     := Primary ( "**" Unary )?\<close>

  \<^verbatim>\<open>Primary   := Number | "(" Expr ")"\<close>

  with decimal integers and decimal fractions for the numbers, and an identifier for a
  name of the environment. The nonterminals are levels: additive 0,
  multiplicative 1, unary 2, power 3, primary 4, and an expression of a level is also one
  of every lower level. A repetition is read from the left, as the spec says of the
  left-associative operators: the left operand of \<open>+\<close> is an additive expression and its
  right operand a multiplicative one, and so one level up for \<open>*\<close>. A power has a primary
  on its left and a unary expression on its right. \<open>grammatical\<close> says that every operand
  of a phrase is of the level that the grammar asks for at its place.
\<close>

datatype phrase =
    Number nat
  | Fraction nat string
  | Named string
  | Group phrase
  | Signed unaryop phrase
  | Binary phrase operator phrase

definition arithmetic_operators :: "operator list" where
  "arithmetic_operators = [Add, Sub, Mult, Div, FloorDiv, Mod, Pow_op]"

fun operator_level :: "operator \<Rightarrow> nat" where
  "operator_level Add = 0"
| "operator_level Sub = 0"
| "operator_level Pow_op = 3"
| "operator_level opr = 1"

fun left_level :: "operator \<Rightarrow> nat" where
  "left_level Add = 0"
| "left_level Sub = 0"
| "left_level Pow_op = 4"
| "left_level opr = 1"

fun right_level :: "operator \<Rightarrow> nat" where
  "right_level Add = 1"
| "right_level Sub = 1"
| "right_level opr = 2"

fun level :: "phrase \<Rightarrow> nat" where
  "level (Number n) = 4"
| "level (Fraction n ds) = 4"
| "level (Named x) = 4"
| "level (Group p) = 4"
| "level (Signed opr p) = 2"
| "level (Binary l opr r) = operator_level opr"

text \<open>An identifier (section 4.1): letters, digits and underscores, not starting with a
  digit, and no word of the language.\<close>

definition is_identifier :: "string \<Rightarrow> bool" where
  "is_identifier x =
     (x \<noteq> [] \<and> is_ident_start (hd x) \<and> list_all is_ident_char x \<and>
      x \<notin> set reserved \<and> x \<notin> set [''True'', ''False'', ''None''])"

fun grammatical :: "phrase \<Rightarrow> bool" where
  "grammatical (Number n) = True"
| "grammatical (Fraction n ds) = list_all is_digit ds"
| "grammatical (Named x) = is_identifier x"
| "grammatical (Group p) = grammatical p"
| "grammatical (Signed opr p) = ((opr = UAdd \<or> opr = USub) \<and> 2 \<le> level p \<and> grammatical p)"
| "grammatical (Binary l opr r) =
     (opr \<in> set arithmetic_operators \<and> left_level opr \<le> level l \<and> right_level opr \<le> level r \<and>
      grammatical l \<and> grammatical r)"

text \<open>The tree that a phrase stands for: the parentheses group and leave no node. The
  number \<open>n.ds\<close> is \<open>n\<close> and the fraction of the digits \<open>ds\<close>, a float.\<close>

definition fraction_value :: "nat \<Rightarrow> string \<Rightarrow> real" where
  "fraction_value n ds = real n + real (digits_val ds) / 10 ^ length ds"

fun tree_of :: "phrase \<Rightarrow> expr" where
  "tree_of (Number n) = Constant (VInt (int n))"
| "tree_of (Fraction n ds) = Constant (VFloat (fraction_value n ds))"
| "tree_of (Named x) = Name x"
| "tree_of (Group p) = tree_of p"
| "tree_of (Signed opr p) = UnaryOp opr (tree_of p)"
| "tree_of (Binary l opr r) = BinOp (tree_of l) opr (tree_of r)"

fun operator_symbol :: "operator \<Rightarrow> string" where
  "operator_symbol Add = ''+''"
| "operator_symbol Sub = ''-''"
| "operator_symbol Mult = ''*''"
| "operator_symbol Div = ''/''"
| "operator_symbol FloorDiv = ''//''"
| "operator_symbol Mod = ''%''"
| "operator_symbol Pow_op = ''**''"
| "operator_symbol opr = []"

definition sign_symbol :: "unaryop \<Rightarrow> string" where
  "sign_symbol opr = (if opr = UAdd then ''+'' else ''-'')"

text \<open>The decimal digits of a natural number, without leading zeros.\<close>

definition digit_char :: "nat \<Rightarrow> char" where
  "digit_char d = char_of (48 + d)"

fun decimal :: "nat \<Rightarrow> string" where
  "decimal n = (if n < 10 then [digit_char n] else decimal (n div 10) @ [digit_char (n mod 10)])"

declare decimal.simps [simp del]

text \<open>
  \<open>text_of pow p\<close> is the text of the phrase \<open>p\<close> with \<open>pow\<close> for the power operator, and
  \<open>written\<close> the text as the user types it, with \<open>^\<close> for the power; \<open>tokens_of\<close> is the
  same text in tokens.
\<close>

fun text_of :: "string \<Rightarrow> phrase \<Rightarrow> string" where
  "text_of pow (Number n) = decimal n"
| "text_of pow (Fraction n ds) = decimal n @ ''.'' @ ds"
| "text_of pow (Named x) = x"
| "text_of pow (Group p) = ''('' @ text_of pow p @ '')''"
| "text_of pow (Signed opr p) = sign_symbol opr @ text_of pow p"
| "text_of pow (Binary l opr r) =
     text_of pow l @ (if opr = Pow_op then pow else operator_symbol opr) @ text_of pow r"

definition written :: "phrase \<Rightarrow> string" where
  "written p = text_of ''^'' p"

fun tokens_of :: "phrase \<Rightarrow> token list" where
  "tokens_of (Number n) = [TConst (VInt (int n))]"
| "tokens_of (Fraction n ds) = [TConst (VFloat (fraction_value n ds))]"
| "tokens_of (Named x) = [TName x]"
| "tokens_of (Group p) = TOp ''('' # tokens_of p @ [TOp '')'']"
| "tokens_of (Signed opr p) = TOp (sign_symbol opr) # tokens_of p"
| "tokens_of (Binary l opr r) = tokens_of l @ TOp (operator_symbol opr) # tokens_of r"

text \<open>
  The value of an arithmetic expression in standard arithmetic: every operator is the
  host's operation of its symbol on the values of its operands, in the grouping of the
  tree, and a name is looked up in the names of the environment without regard to case
  (section 3). There is no value where an operation has none (a division by zero) or a
  name is unknown.
\<close>

definition defined :: "pyexc + pyval \<Rightarrow> pyval option" where
  "defined r = (case r of Inr v \<Rightarrow> Some v | Inl e \<Rightarrow> None)"

fun standard_operation :: "operator \<Rightarrow> pyval \<Rightarrow> pyval \<Rightarrow> pyval option" where
  "standard_operation Add a b = defined (py_add a b)"
| "standard_operation Sub a b = defined (py_sub a b)"
| "standard_operation Mult a b = defined (py_mul a b)"
| "standard_operation Div a b = defined (py_truediv a b)"
| "standard_operation FloorDiv a b = defined (py_floordiv a b)"
| "standard_operation Mod a b = defined (py_mod a b)"
| "standard_operation Pow_op a b = defined (py_pow a b)"
| "standard_operation opr a b = None"

fun arith_value :: "names \<Rightarrow> expr \<Rightarrow> pyval option" where
  "arith_value N (Constant v) = Some v"
| "arith_value N (Name x) = N (lower x)"
| "arith_value N (UnaryOp opr x) =
     (case arith_value N x of
        None \<Rightarrow> None
      | Some a \<Rightarrow>
          if opr = UAdd then defined (py_pos a)
          else if opr = USub then defined (py_neg a)
          else None)"
| "arith_value N (BinOp l opr r) =
     (case arith_value N l of
        None \<Rightarrow> None
      | Some a \<Rightarrow>
          (case arith_value N r of None \<Rightarrow> None | Some b \<Rightarrow> standard_operation opr a b))"
| "arith_value N e = None"

section \<open>How the parser reads an arithmetic expression\<close>

text \<open>
  The notions in which the reading of the text of a phrase is proved. \<open>starts_operand\<close>
  and \<open>ends_operand\<close> say how the text of an operand begins and what can follow it;
  \<open>starts_level k\<close> and \<open>ends_level k\<close> say the same of the tokens of an expression of
  level \<open>k\<close>: after a sum only a closing parenthesis or the end, after a product also \<open>+\<close>
  and \<open>-\<close>, after a unary expression also the multiplicative operators.
\<close>

definition ends_operand :: "string \<Rightarrow> bool" where
  "ends_operand rest = (case rest of [] \<Rightarrow> True | c # cs \<Rightarrow> c \<in> set ''+-*/%)'')"

definition starts_operand :: "string \<Rightarrow> bool" where
  "starts_operand s =
     (case s of [] \<Rightarrow> False | c # cs \<Rightarrow> is_digit c \<or> is_ident_start c \<or> c \<in> set ''(+-'')"

definition ends_level :: "nat \<Rightarrow> token list \<Rightarrow> bool" where
  "ends_level k rest =
     (case rest of
        [] \<Rightarrow> True
      | TOp w # r \<Rightarrow>
          w = '')'' \<or> (1 \<le> k \<and> w \<in> set [''+'', ''-'']) \<or>
          (2 \<le> k \<and> w \<in> set [''*'', ''/'', ''//'', ''%''])
      | _ \<Rightarrow> False)"

definition starts_level :: "nat \<Rightarrow> token list \<Rightarrow> bool" where
  "starts_level k toks =
     (case toks of
        TConst v # r \<Rightarrow> True
      | TName x # r \<Rightarrow> True
      | TOp w # r \<Rightarrow> w = ''('' \<or> (k \<le> 2 \<and> (w = ''+'' \<or> w = ''-''))
      | [] \<Rightarrow> False)"

text \<open>
  \<open>reads g m toks res\<close>: with every bound on the nesting from \<open>m\<close> on, the parser reads
  \<open>res\<close> - an expression and the tokens left - for the goal \<open>g\<close> on the tokens \<open>toks\<close>.
  \<open>at_atom\<close>, \<open>at_factor\<close>, \<open>at_chain\<close> and \<open>at_whole\<close> say that the parser reads the tokens
  of a phrase as its tree where it expects a primary, a unary expression, a chain of
  level 1 or 0 (continued as the repetition continues it), or a whole expression, with
  a bound on the nesting that is linear in the number of tokens.
\<close>

definition reads :: "goal \<Rightarrow> nat \<Rightarrow> token list \<Rightarrow> expr \<times> token list \<Rightarrow> bool" where
  "reads g m toks res = (\<forall>n\<ge>m. parse_goal n g toks = Inr res)"

definition at_atom :: "phrase \<Rightarrow> bool" where
  "at_atom p =
     (\<forall>rest. reads GAtom (4 * length (tokens_of p)) (tokens_of p @ rest) (tree_of p, rest))"

definition at_factor :: "phrase \<Rightarrow> bool" where
  "at_factor p =
     (\<forall>rest. ends_level 2 rest \<longrightarrow>
        reads GFactor (4 * length (tokens_of p) + 1) (tokens_of p @ rest) (tree_of p, rest))"

definition at_chain :: "nat \<Rightarrow> phrase \<Rightarrow> bool" where
  "at_chain lvl p =
     (\<forall>rest m res. ends_level (Suc lvl) rest \<longrightarrow> reads (GBinRest lvl (tree_of p)) m rest res \<longrightarrow>
        reads (GBin lvl)
          (max (m + length (tokens_of p)) (4 * length (tokens_of p) + 3 - lvl))
          (tokens_of p @ rest) res)"

definition at_whole :: "phrase \<Rightarrow> bool" where
  "at_whole p =
     (\<forall>rest. ends_level 0 rest \<longrightarrow>
        reads (GBool Or) (4 * length (tokens_of p) + 6) (tokens_of p @ rest) (tree_of p, rest))"

section \<open>Chained comparison as the specification words it\<close>

text \<open>
  Following the spec's words (section 4.3), not the code: a chained comparison is the
  logical AND of the adjacent pairwise comparisons, \<open>a < b < c\<close> being \<open>(a < b) and (b < c)\<close>.
  \<open>host_compare\<close> is one comparison of the grammar on two values as the host language
  makes it, \<open>chained_and\<close> the host's \<^verbatim>\<open>and\<close> of the adjacent comparisons over the values
  of the operands: false at the first pair that does not hold, the fault of the first
  pair that cannot be compared, true when every pair holds.
\<close>

fun in_grammar :: "cmpop \<Rightarrow> bool" where
  "in_grammar Eq = True"
| "in_grammar NotEq = True"
| "in_grammar Lt = True"
| "in_grammar LtE = True"
| "in_grammar Gt = True"
| "in_grammar GtE = True"
| "in_grammar opr = False"

fun host_compare :: "cmpop \<Rightarrow> pyval \<Rightarrow> pyval \<Rightarrow> pyexc + bool" where
  "host_compare Eq a b = Inr (py_eq a b)"
| "host_compare NotEq a b = Inr (\<not> py_eq a b)"
| "host_compare Lt a b = py_order OLt a b"
| "host_compare LtE a b = py_order OLtE a b"
| "host_compare Gt a b = py_order OGt a b"
| "host_compare GtE a b = py_order OGtE a b"
| "host_compare opr a b = Inl (SyntaxError ''not a comparison of the grammar'')"

fun chained_and :: "cmpop list \<Rightarrow> pyval list \<Rightarrow> pyexc + bool" where
  "chained_and (opr # oprs) (a # b # vs) =
     (case host_compare opr a b of
        Inl e \<Rightarrow> Inl e
      | Inr t \<Rightarrow> if t then chained_and oprs (b # vs) else Inr False)"
| "chained_and oprs vs = Inr True"

section \<open>The subexpressions that an evaluation reaches\<close>

text \<open>
  \<open>reaches F N e s sub s0\<close>: the evaluation of \<open>e\<close> from the state \<open>s\<close> evaluates the
  subexpression \<open>sub\<close>, from the state \<open>s0\<close>. An operand is reached when the operands
  before it have been evaluated without a fault, and a comparator also when the
  comparisons before it could be made. \<open>reaches_list\<close> is the same for the elements of
  a list evaluated in order, \<open>reaches_loop\<close> for the comparators of a comparison.
\<close>

inductive
  reaches :: "funcs \<Rightarrow> names \<Rightarrow> expr \<Rightarrow> rng \<Rightarrow> expr \<Rightarrow> rng \<Rightarrow> bool" and
  reaches_list :: "funcs \<Rightarrow> names \<Rightarrow> expr list \<Rightarrow> rng \<Rightarrow> expr \<Rightarrow> rng \<Rightarrow> bool" and
  reaches_loop ::
    "funcs \<Rightarrow> names \<Rightarrow> pyval \<Rightarrow> bool \<Rightarrow> cmpop list \<Rightarrow> expr list \<Rightarrow> rng \<Rightarrow> expr \<Rightarrow> rng \<Rightarrow> bool"
  for F :: funcs and N :: names
where
  reaches_self: "reaches F N e s e s"
| reaches_operand: "reaches F N operand s sub s0 \<Longrightarrow> reaches F N (UnaryOp opr operand) s sub s0"
| reaches_left: "reaches F N l s sub s0 \<Longrightarrow> reaches F N (BinOp l opr r) s sub s0"
| reaches_right:
    "visit F N l s = (Inr a, s1) \<Longrightarrow> reaches F N r s1 sub s0
     \<Longrightarrow> reaches F N (BinOp l opr r) s sub s0"
| reaches_values: "reaches_list F N vals s sub s0 \<Longrightarrow> reaches F N (BoolOp bop vals) s sub s0"
| reaches_compare_left:
    "reaches F N l s sub s0 \<Longrightarrow> reaches F N (Compare l cmpops comparators) s sub s0"
| reaches_comparators:
    "visit F N l s = (Inr a, s1) \<Longrightarrow> reaches_loop F N a True cmpops comparators s1 sub s0
     \<Longrightarrow> reaches F N (Compare l cmpops comparators) s sub s0"
| reaches_args:
    "F (lower ident) = Some fn \<Longrightarrow> reaches_list F N args s sub s0
     \<Longrightarrow> reaches F N (Call (Name ident) args keywords) s sub s0"
| reaches_list_elts: "reaches_list F N elts s sub s0 \<Longrightarrow> reaches F N (List elts) s sub s0"
| reaches_tuple_elts: "reaches_list F N elts s sub s0 \<Longrightarrow> reaches F N (Tuple elts) s sub s0"
| reaches_head: "reaches F N e s sub s0 \<Longrightarrow> reaches_list F N (e # es) s sub s0"
| reaches_tail:
    "visit F N e s = (Inr v, s1) \<Longrightarrow> reaches_list F N es s1 sub s0
     \<Longrightarrow> reaches_list F N (e # es) s sub s0"
| reaches_comparator:
    "reaches F N c s sub s0 \<Longrightarrow> reaches_loop F N left res (opr # oprs) (c # cs) s sub s0"
| reaches_later:
    "visit F N c s = (Inr right, s1) \<Longrightarrow> compare_step opr res left right = Inr res'
     \<Longrightarrow> reaches_loop F N right res' oprs cs s1 sub s0
     \<Longrightarrow> reaches_loop F N left res (opr # oprs) (c # cs) s sub s0"


text \<open>A state of the random generator for concrete evaluations: every raw draw is zero.\<close>

definition zeros :: rng where
  "zeros = (\<lambda>i. 0)"

section \<open>Evaluating the facade\<close>

lemmas facade_defs =
  calculate_def calculate_with_def evaluate_for_x_def evaluate_for_x_with_def try_evaluate_def
  replace_def

lemmas call_defs =
  prepare_functions_def lower_def lower_char_def call_function_def stateless_def

lemmas arith_defs =
  visit_BinOp_def visit_UnaryOp_def py_add_def py_sub_def py_mul_def py_pow_def py_neg_def

subsection \<open>The results of calculate\<close>

text \<open>\<^verbatim>\<open>calculate\<close> returns for every argument and every parser: the value of the evaluation,
  or one of its three kinds of error string.\<close>

lemma calculate_returns:
  "(\<exists>v s'. try_evaluate parse self None expression s = (Inr v, s') \<and>
           calculate_with parse self expression s = (v, s')) \<or>
   (\<exists>m s'. calculate_with parse self expression s = (VStr (''Error: '' @ m), s')) \<or>
   (\<exists>s'. calculate_with parse self expression s = (VStr ''Division by zero'', s')) \<or>
   (\<exists>s'. calculate_with parse self expression s = (VStr ''Error'', s'))"
proof (cases "try_evaluate parse self None expression s")
  case (Pair r s')
  show ?thesis
  proof (cases r)
    case (Inl e)
    with Pair show ?thesis by (cases e) (simp_all add: calculate_with_def)
  next
    case (Inr v)
    with Pair show ?thesis by (simp add: calculate_with_def)
  qed
qed

subsection \<open>A call with too few arguments\<close>

lemma parse_mean_call: "ast_parse ''mean()'' = Inr (Call (Name ''mean'') [] [])"
  by code_simp

text \<open>
  C1. \<^verbatim>\<open>calculate\<close> returns for every input, but its result is not always a Value or an
  error string: the entry \<^verbatim>\<open>mean\<close> of the function table returns the exception object
  \<^verbatim>\<open>EvalError("mean() needs args")\<close> instead of raising it, so \<^verbatim>\<open>calculate("mean()")\<close>
  hands that object to the caller.
\<close>

theorem calculate_mean_without_arguments:
  "calculate self (VStr ''mean()'') s = (VExc (EvalError ''mean() needs args''), s)"
  by (simp add: facade_defs parse_mean_call call_defs fn_mean_def)

subsection \<open>Constructs outside the grammar\<close>

lemma parse_abs_keyword:
  "ast_parse ''abs(1,k=2)'' =
     Inr (Call (Name ''abs'') [Constant (VInt 1)] [(Some ''k'', Constant (VInt 2))])"
  by code_simp

text \<open>
  C2. A call that carries a keyword argument is not rejected: \<^verbatim>\<open>visit_Call\<close> never reads
  \<^verbatim>\<open>node.keywords\<close>, so \<^verbatim>\<open>calculate("abs(1,k=2)")\<close> evaluates \<^verbatim>\<open>abs(1)\<close> and returns 1.
\<close>

theorem calculate_keyword_argument_dropped:
  "calculate self (VStr ''abs(1,k=2)'') s = (VInt 1, s)"
  by (simp add: facade_defs parse_abs_keyword call_defs builtin_abs_def)

text \<open>What the evaluator does reject: a node class without a \<^verbatim>\<open>visit_\<close> method, and a call
  whose callee is not a name. A string constant is returned as it is.\<close>

lemma unsupported_node_rejected:
  "visit F N (Other cls) s = (Inl (EvalError (''Unsupported expression: '' @ cls)), s)"
  by simp

lemma indirect_call_rejected:
  "\<forall>ident. func \<noteq> Name ident \<Longrightarrow>
   visit F N (Call func args keywords) s =
     (Inl (EvalError ''Only direct function calls allowed''), s)"
  by (cases func) simp_all

lemma string_constant_evaluated:
  "visit F N (Constant (VStr lit)) s = (Inr (VStr lit), s)"
  by simp

subsection \<open>Division by zero\<close>

lemma parse_one_over_zero:
  "ast_parse ''1/0'' = Inr (BinOp (Constant (VInt 1)) Div (Constant (VInt 0)))"
  by code_simp

lemma parse_mod_call:
  "ast_parse ''mod(7,0)'' = Inr (Call (Name ''mod'') [Constant (VInt 7), Constant (VInt 0)] [])"
  by code_simp

lemma parse_nested_division:
  "ast_parse ''1+1/0'' =
     Inr (BinOp (Constant (VInt 1)) Add (BinOp (Constant (VInt 1)) Div (Constant (VInt 0))))"
  by code_simp

lemma parse_nested_mod_call:
  "ast_parse ''1+mod(7,0)'' =
     Inr (BinOp (Constant (VInt 1)) Add
            (Call (Name ''mod'') [Constant (VInt 7), Constant (VInt 0)] []))"
  by code_simp

lemma calculate_one_over_zero:
  "calculate self (VStr ''1/0'') s = (VStr ''Error: Division by zero'', s)"
  by (simp add: facade_defs parse_one_over_zero visit_BinOp_def py_truediv_def lift_num_def)

lemma calculate_mod_call:
  "calculate self (VStr ''mod(7,0)'') s = (VStr ''Error: integer modulo by zero'', s)"
  by (simp add: facade_defs parse_mod_call call_defs lambda2_def py_mod_def lift_num_def)

text \<open>
  C3, as stated, fails: \<^verbatim>\<open>calculate("1/0")\<close> is not the string \<^verbatim>\<open>"Division by zero"\<close> but
  \<^verbatim>\<open>"Error: Division by zero"\<close>, and \<^verbatim>\<open>calculate("mod(7,0)")\<close>, whose modulo by zero is
  performed by a function of the table, is \<^verbatim>\<open>"Error: integer modulo by zero"\<close>.
\<close>

theorem division_by_zero_counterexample:
  "fst (calculate init (VStr ''1/0'') zeros) = VStr ''Error: Division by zero'' \<and>
   fst (calculate init (VStr ''1/0'') zeros) \<noteq> VStr ''Division by zero'' \<and>
   fst (calculate init (VStr ''mod(7,0)'') zeros) = VStr ''Error: integer modulo by zero'' \<and>
   fst (calculate init (VStr ''mod(7,0)'') zeros) \<noteq> VStr ''Division by zero''"
  by (simp add: calculate_one_over_zero calculate_mod_call)

lemma zero_divisor_raises:
  assumes "opr = Div \<or> opr = FloorDiv \<or> opr = Mod"
    and "as_num a = Some x" and "as_num b = Some y" and "num_real y = 0"
  shows "visit_BinOp a opr b = Inl (EvalError ''Division by zero'')"
proof -
  have y: "y = NI 0 \<or> y = NF 0" using assms(4) by (cases y) auto
  show ?thesis
    using assms(1,2,3) y
    by (cases x) (auto simp: visit_BinOp_def py_truediv_def py_floordiv_def py_mod_def lift_num_def)
qed

text \<open>An exception raised by a subexpression that the evaluation reaches is the exception
  of the whole evaluation: no \<^verbatim>\<open>visit_\<close> method catches what an operand raises.\<close>

lemma reaches_fault:
  "reaches F N e s sub s0 \<Longrightarrow> visit F N sub s0 = (Inl x, s') \<Longrightarrow>
     visit F N e s = (Inl x, s')"
  "reaches_list F N es s sub s0 \<Longrightarrow> visit F N sub s0 = (Inl x, s') \<Longrightarrow>
     visit_list F N es s = (Inl x, s')"
  "reaches_loop F N left res cmpops comparators s sub s0 \<Longrightarrow> visit F N sub s0 = (Inl x, s') \<Longrightarrow>
     compare_loop F N left res cmpops comparators s = (Inl x, s')"
  by (induction rule: reaches_reaches_list_reaches_loop.inducts) simp_all

text \<open>
  C3, amended. Let the evaluation of the parsed input reach a subexpression that divides
  by zero. Where this is a division, a floor division or a modulo \<open>l / r\<close>, \<open>l // r\<close>,
  \<open>l % r\<close> whose operands evaluate to numbers (\<open>int\<close>, \<open>bool\<close>, \<open>float\<close>) with the right one
  zero, \<^verbatim>\<open>calculate\<close> returns the string \<^verbatim>\<open>"Error: Division by zero"\<close>: \<^verbatim>\<open>visit_BinOp\<close> turns
  the host's \<open>ZeroDivisionError\<close> into an \<open>EvalError\<close>, and the facade prefixes it. Where
  it is a call of a function of the table that raises the \<open>ZeroDivisionError\<close>, as
  \<^verbatim>\<open>mod(7,0)\<close> does, \<^verbatim>\<open>calculate\<close> returns \<^verbatim>\<open>"Error: "\<close> followed by the message of the host.
  Both hold at every depth of the expression and for every parser.
\<close>

theorem calculate_division_by_zero:
  assumes "parse (replace (replace source CHR '' '' []) CHR ''^'' ''**'') = Inr e"
    and "reaches (prepare_functions self) (prepare_names None) e s sub s0"
  shows "(sub = BinOp l opr r \<and> (opr = Div \<or> opr = FloorDiv \<or> opr = Mod) \<and>
          visit (prepare_functions self) (prepare_names None) l s0 = (Inr a, s1) \<and>
          visit (prepare_functions self) (prepare_names None) r s1 = (Inr b, s2) \<and>
          as_num a = Some x \<and> as_num b = Some y \<and> num_real y = 0
          \<longrightarrow> calculate_with parse self (VStr source) s = (VStr ''Error: Division by zero'', s2)) \<and>
         (sub = Call (Name ident) args kwargs \<and>
          prepare_functions self (lower ident) = Some fn \<and>
          visit_list (prepare_functions self) (prepare_names None) args s0 = (Inr vals, s1) \<and>
          fn vals s1 = (Inl (ZeroDivisionError m), s2)
          \<longrightarrow> calculate_with parse self (VStr source) s = (VStr (''Error: '' @ m), s2))"
proof (intro conjI impI)
  assume h: "sub = BinOp l opr r \<and> (opr = Div \<or> opr = FloorDiv \<or> opr = Mod) \<and>
      visit (prepare_functions self) (prepare_names None) l s0 = (Inr a, s1) \<and>
      visit (prepare_functions self) (prepare_names None) r s1 = (Inr b, s2) \<and>
      as_num a = Some x \<and> as_num b = Some y \<and> num_real y = 0"
  then have "visit_BinOp a opr b = Inl (EvalError ''Division by zero'')"
    by (intro zero_divisor_raises [where x = x and y = y]) simp_all
  with h have "visit (prepare_functions self) (prepare_names None) sub s0 =
      (Inl (EvalError ''Division by zero''), s2)"
    by simp
  from assms(1) reaches_fault(1) [OF assms(2) this]
  show "calculate_with parse self (VStr source) s = (VStr ''Error: Division by zero'', s2)"
    by (simp add: calculate_with_def try_evaluate_def)
next
  assume h: "sub = Call (Name ident) args kwargs \<and>
      prepare_functions self (lower ident) = Some fn \<and>
      visit_list (prepare_functions self) (prepare_names None) args s0 = (Inr vals, s1) \<and>
      fn vals s1 = (Inl (ZeroDivisionError m), s2)"
  then have "visit (prepare_functions self) (prepare_names None) sub s0 = (Inl (EvalError m), s2)"
    by (simp add: call_function_def)
  from assms(1) reaches_fault(1) [OF assms(2) this]
  show "calculate_with parse self (VStr source) s = (VStr (''Error: '' @ m), s2)"
    by (simp add: calculate_with_def try_evaluate_def)
qed

theorem calculate_division_by_zero_witness:
  "ast_parse (replace (replace ''1 + 1/0'' CHR '' '' []) CHR ''^'' ''**'') =
     Inr (BinOp (Constant (VInt 1)) Add (BinOp (Constant (VInt 1)) Div (Constant (VInt 0)))) \<and>
   reaches (prepare_functions init) (prepare_names None)
     (BinOp (Constant (VInt 1)) Add (BinOp (Constant (VInt 1)) Div (Constant (VInt 0)))) zeros
     (BinOp (Constant (VInt 1)) Div (Constant (VInt 0))) zeros \<and>
   as_num (VInt 1) = Some (NI 1) \<and> as_num (VInt 0) = Some (NI 0) \<and> num_real (NI 0) = 0 \<and>
   calculate_with ast_parse init (VStr ''1 + 1/0'') zeros =
     (VStr ''Error: Division by zero'', zeros) \<and>
   ast_parse (replace (replace ''1 + mod(7, 0)'' CHR '' '' []) CHR ''^'' ''**'') =
     Inr (BinOp (Constant (VInt 1)) Add
            (Call (Name ''mod'') [Constant (VInt 7), Constant (VInt 0)] [])) \<and>
   reaches (prepare_functions init) (prepare_names None)
     (BinOp (Constant (VInt 1)) Add
        (Call (Name ''mod'') [Constant (VInt 7), Constant (VInt 0)] [])) zeros
     (Call (Name ''mod'') [Constant (VInt 7), Constant (VInt 0)] []) zeros \<and>
   prepare_functions init (lower ''mod'') = Some (stateless (lambda2 py_mod)) \<and>
   stateless (lambda2 py_mod) [VInt 7, VInt 0] zeros =
     (Inl (ZeroDivisionError ''integer modulo by zero''), zeros) \<and>
   calculate_with ast_parse init (VStr ''1 + mod(7, 0)'') zeros =
     (VStr ''Error: integer modulo by zero'', zeros)"
proof -
  let ?F = "prepare_functions init" and ?N = "prepare_names None"
  let ?d = "BinOp (Constant (VInt 1)) Div (Constant (VInt 0))"
  let ?c = "Call (Name ''mod'') [Constant (VInt 7), Constant (VInt 0)] []"
  have p1: "ast_parse (replace (replace ''1 + 1/0'' CHR '' '' []) CHR ''^'' ''**'') =
      Inr (BinOp (Constant (VInt 1)) Add ?d)"
    by (simp add: replace_def parse_nested_division)
  have r1: "reaches ?F ?N (BinOp (Constant (VInt 1)) Add ?d) zeros ?d zeros"
    by (rule reaches_right [where a = "VInt 1" and ?s1.0 = zeros]) (simp, rule reaches_self)
  have p2: "ast_parse (replace (replace ''1 + mod(7, 0)'' CHR '' '' []) CHR ''^'' ''**'') =
      Inr (BinOp (Constant (VInt 1)) Add ?c)"
    by (simp add: replace_def parse_nested_mod_call)
  have r2: "reaches ?F ?N (BinOp (Constant (VInt 1)) Add ?c) zeros ?c zeros"
    by (rule reaches_right [where a = "VInt 1" and ?s1.0 = zeros]) (simp, rule reaches_self)
  have f: "prepare_functions init (lower ''mod'') = Some (stateless (lambda2 py_mod))"
    by (simp add: prepare_functions_def lower_def lower_char_def)
  have z: "stateless (lambda2 py_mod) [VInt 7, VInt 0] zeros =
      (Inl (ZeroDivisionError ''integer modulo by zero''), zeros)"
    by (simp add: stateless_def lambda2_def py_mod_def lift_num_def)
  have c1: "calculate_with ast_parse init (VStr ''1 + 1/0'') zeros =
      (VStr ''Error: Division by zero'', zeros)"
    using p1 r1 calculate_division_by_zero [where parse = ast_parse and source = "''1 + 1/0''"
        and self = init and s = zeros and sub = ?d and ?s0.0 = zeros
        and e = "BinOp (Constant (VInt 1)) Add ?d" and l = "Constant (VInt 1)" and opr = Div
        and r = "Constant (VInt 0)" and a = "VInt 1" and b = "VInt 0" and x = "NI 1"
        and y = "NI 0" and ?s1.0 = zeros and ?s2.0 = zeros]
    by simp
  have c2: "calculate_with ast_parse init (VStr ''1 + mod(7, 0)'') zeros =
      (VStr ''Error: integer modulo by zero'', zeros)"
    using p2 r2 f z calculate_division_by_zero [where parse = ast_parse
        and source = "''1 + mod(7, 0)''" and self = init and s = zeros and sub = ?c
        and ?s0.0 = zeros and e = "BinOp (Constant (VInt 1)) Add ?c" and ident = "''mod''"
        and args = "[Constant (VInt 7), Constant (VInt 0)]" and kwargs = "[]"
        and fn = "stateless (lambda2 py_mod)" and vals = "[VInt 7, VInt 0]"
        and m = "''integer modulo by zero''" and ?s1.0 = zeros and ?s2.0 = zeros]
    by simp
  from p1 r1 c1 p2 r2 f z c2 show ?thesis by simp
qed

subsection \<open>Precedence and associativity\<close>

text \<open>
  The text of a phrase of the arithmetic grammar is parsed as the tree of the phrase and
  evaluated in its grouping. The proof follows \<^verbatim>\<open>calculate\<close>: the replacement of \<open>^\<close>, the
  tokenizer, the parser at each level, and the evaluator.
\<close>

subsubsection \<open>The value of the tree\<close>

text \<open>The evaluator gives an expression its value in standard arithmetic, and leaves the
  state of the generator as it is.\<close>

lemma visit_arithmetic:
  "arith_value N e = Some v \<Longrightarrow> visit F N e s = (Inr v, s)"
proof (induction e arbitrary: v)
  case (Name x)
  then show ?case by (simp add: visit_Name_def)
next
  case (UnaryOp opr x)
  then show ?case
    by (auto simp: visit_UnaryOp_def defined_def split: option.splits sum.splits if_splits)
next
  case (BinOp l opr r)
  then show ?case
    by (cases opr) (auto simp: visit_BinOp_def defined_def split: option.splits sum.splits)
qed simp_all

subsubsection \<open>Decimal digits\<close>

lemma of_char_digit_char: "d < 10 \<Longrightarrow> (of_char (digit_char d) :: nat) = 48 + d"
  by (simp add: digit_char_def)

lemma digit_val_digit_char: "d < 10 \<Longrightarrow> digit_val (digit_char d) = Some d"
  by (simp add: digit_val_def of_char_digit_char)

lemma is_digit_digit_char: "d < 10 \<Longrightarrow> is_digit (digit_char d)"
  by (simp add: is_digit_def digit_val_digit_char)

lemma decimal_digits: "list_all is_digit (decimal n)"
  by (induction n rule: decimal.induct) (subst decimal.simps, simp add: is_digit_digit_char)

lemma decimal_nonempty: "decimal n \<noteq> []"
  by (subst decimal.simps) simp

lemma digits_val_append: "digits_val (ds @ [c]) = 10 * digits_val ds + (case digit_val c of Some d \<Rightarrow> d | None \<Rightarrow> 0)"
  by (simp add: digits_val_def)

lemma digits_val_decimal: "digits_val (decimal n) = n"
proof (induction n rule: decimal.induct)
  case (1 n)
  show ?case
  proof (cases "n < 10")
    case True
    then show ?thesis by (subst decimal.simps) (simp add: digits_val_def digit_val_digit_char)
  next
    case False
    then show ?thesis
      using 1 by (subst decimal.simps) (simp add: digits_val_append digit_val_digit_char)
  qed
qed

lemma decimal_no_leading_zero: "1 < length (decimal n) \<Longrightarrow> hd (decimal n) \<noteq> CHR ''0''"
proof (induction n rule: decimal.induct)
  case (1 n)
  show ?case
  proof (cases "n < 10")
    case True
    with 1(2) show ?thesis by (subst (asm) decimal.simps) simp
  next
    case False
    show ?thesis
    proof (cases "n div 10 < 10")
      case True
      have d1: "decimal (n div 10) = [digit_char (n div 10)]"
        using True by (subst decimal.simps) simp
      have d2: "0 < n div 10" using False by (simp add: div_greater_zero_iff)
      note d = d1 d2
      have "digit_char (n div 10) \<noteq> CHR ''0''"
        using of_char_digit_char [OF True] d(2) by auto
      with False d show ?thesis by (subst decimal.simps) simp
    next
      case F2: False
      then have "1 < length (decimal (n div 10))"
        by (subst decimal.simps) (simp add: Suc_le_eq decimal_nonempty)
      with 1(1) False have "hd (decimal (n div 10)) \<noteq> CHR ''0''" by simp
      with False show ?thesis by (subst decimal.simps) (simp add: decimal_nonempty)
    qed
  qed
qed

subsubsection \<open>The text that calculate parses\<close>

lemma replace_append: "replace (a @ b) c new = replace a c new @ replace b c new"
  by (simp add: replace_def)

lemma replace_Cons: "replace (x # xs) c new = (if x = c then new else [x]) @ replace xs c new"
  by (simp add: replace_def)

lemma replace_Nil: "replace [] c new = []"
  by (simp add: replace_def)

lemma replace_none: "list_all P ds \<Longrightarrow> \<not> P c \<Longrightarrow> replace ds c new = ds"
  by (induction ds) (auto simp: replace_Cons replace_Nil)

lemma not_ident_char: "\<not> is_ident_char CHR ''^''" "\<not> is_ident_char CHR ''+''"
  "\<not> is_ident_char CHR ''-''" "\<not> is_ident_char CHR ''*''" "\<not> is_ident_char CHR ''/''"
  "\<not> is_ident_char CHR ''%''" "\<not> is_ident_char CHR '')''" "\<not> is_ident_char CHR ''=''"
  by (simp_all add: is_ident_char_def is_ident_start_def is_digit_def digit_val_def)

lemma not_digit: "\<not> is_digit CHR '' ''" "\<not> is_digit CHR ''^''" "\<not> is_digit CHR ''.''"
  "\<not> is_digit CHR ''e''" "\<not> is_digit CHR ''E''" "\<not> is_digit CHR ''+''" "\<not> is_digit CHR ''-''"
  "\<not> is_digit CHR ''*''" "\<not> is_digit CHR ''/''" "\<not> is_digit CHR ''%''" "\<not> is_digit CHR '')''"
  "\<not> is_digit CHR ''(''" "\<not> is_digit CHR ''=''"
  by (simp_all add: is_digit_def digit_val_def)

lemma caret_replaced:
  "grammatical p \<Longrightarrow> replace (text_of ''^'' p) CHR ''^'' ''**'' = text_of ''**'' p"
proof (induction p)
  case (Number n)
  then show ?case by (simp add: replace_none [of is_digit] decimal_digits not_digit)
next
  case (Fraction n ds)
  then show ?case
    by (simp add: replace_append replace_Cons replace_none [of is_digit] decimal_digits not_digit)
next
  case (Named x)
  then show ?case by (simp add: is_identifier_def replace_none [of is_ident_char] not_ident_char)
next
  case (Group p)
  then show ?case by (simp add: replace_append replace_Cons replace_Nil)
next
  case (Signed opr p)
  then show ?case
    by (auto simp: sign_symbol_def replace_append replace_Cons replace_Nil)
next
  case (Binary l opr r)
  then show ?case
    by (auto simp: arithmetic_operators_def replace_append replace_Cons replace_Nil)
qed

subsubsection \<open>The tokens of the text\<close>

lemma tokenize_drop: "k \<le> length cs \<Longrightarrow> tokenize k cs = tokenize 0 (drop k cs)"
proof (induction cs arbitrary: k)
  case Nil
  then show ?case by simp
next
  case (Cons c cs)
  then show ?case by (cases k) simp_all
qed

lemma tokenize_token:
  assumes "token_at (c # cs) = Inr (Some tk, Suc n)" and "n \<le> length cs"
    and "tokenize 0 (drop n cs) = Inr ts"
  shows "tokenize 0 (c # cs) = Inr (tk # ts)"
  using assms tokenize_drop [OF assms(2)] by simp

lemma is_digit_char:
  "is_digit c \<Longrightarrow> \<not> is_space c"
  by (auto simp: is_digit_def digit_val_def is_space_def Let_def split: if_splits)

lemma takeWhile_all: "list_all P xs \<Longrightarrow> takeWhile P (xs @ ys) = xs @ takeWhile P ys"
  by (induction xs) simp_all

lemma ends_operand_no_digit: "ends_operand rest \<Longrightarrow> takeWhile is_digit rest = []"
  by (cases rest) (auto simp: ends_operand_def not_digit)

lemma ends_operand_no_exponent: "ends_operand rest \<Longrightarrow> exponent_at rest = None"
  by (cases rest) (auto simp: ends_operand_def exponent_at_def)

lemma ends_operand_no_fraction: "ends_operand rest \<Longrightarrow> \<not> (rest \<noteq> [] \<and> hd rest = CHR ''.'')"
  by (cases rest) (auto simp: ends_operand_def)

lemma number_at_decimal:
  assumes "ends_operand rest"
  shows "number_at (decimal n @ rest) = Inr (Some (TConst (VInt (int n))), length (decimal n))"
proof -
  have ip: "takeWhile is_digit (decimal n @ rest) = decimal n"
    by (simp add: takeWhile_all decimal_digits ends_operand_no_digit [OF assms])
  have lz: "(1 < length (decimal n) \<and> hd (decimal n) = CHR ''0'' \<and> digits_val (decimal n) \<noteq> 0)
      = False"
    using decimal_no_leading_zero [of n] by blast
  have lz': "(1 < length (decimal n) \<and> hd (decimal n) = CHR ''0'' \<and> n \<noteq> 0) = False"
    using decimal_no_leading_zero [of n] by blast
  have fr: "(rest \<noteq> [] \<and> hd rest = CHR ''.'') = False"
    using ends_operand_no_fraction [OF assms] by blast
  show ?thesis
    unfolding number_at_def ip Let_def
    by (simp only: append_eq_conv_conj drop_append length_drop diff_self_eq_0 drop_0 drop_all
        order_refl append_Nil fr lz lz' if_False ends_operand_no_exponent [OF assms] option.case
        digits_val_decimal add_0_right)
qed

lemma tokenize_decimal:
  assumes "ends_operand rest" and "tokenize 0 rest = Inr ts"
  shows "tokenize 0 (decimal n @ rest) = Inr (TConst (VInt (int n)) # ts)"
proof -
  obtain c cs where d: "decimal n = c # cs" using decimal_nonempty [of n] by (cases "decimal n") auto
  have c: "is_digit c" using decimal_digits [of n] d by simp
  have "token_at (c # cs @ rest) = number_at (c # cs @ rest)"
    using c by (simp add: token_at_def is_digit_char)
  also have "\<dots> = Inr (Some (TConst (VInt (int n))), Suc (length cs))"
    using number_at_decimal [OF assms(1), of n] d by simp
  finally have "tokenize 0 (c # cs @ rest) = Inr (TConst (VInt (int n)) # ts)"
    using assms(2) by (intro tokenize_token [where n = "length cs"]) simp_all
  with d show ?thesis by simp
qed

lemma number_at_fraction:
  assumes "ends_operand rest" and "list_all is_digit ds"
  shows "number_at (decimal n @ CHR ''.'' # ds @ rest) =
     Inr (Some (TConst (VFloat (fraction_value n ds))), length (decimal n) + (1 + length ds))"
proof -
  have ip: "takeWhile is_digit (decimal n @ CHR ''.'' # ds @ rest) = decimal n"
    by (simp add: takeWhile_all decimal_digits not_digit)
  have fp: "takeWhile is_digit (ds @ rest) = ds"
    by (simp add: takeWhile_all assms(2) ends_operand_no_digit [OF assms(1)])
  show ?thesis
    unfolding number_at_def ip Let_def
    by (simp add: fp ends_operand_no_exponent [OF assms(1)] fraction_value_def digits_val_decimal)
qed

lemma tokenize_fraction:
  assumes "ends_operand rest" and "list_all is_digit ds" and "tokenize 0 rest = Inr ts"
  shows "tokenize 0 (decimal n @ CHR ''.'' # ds @ rest) =
     Inr (TConst (VFloat (fraction_value n ds)) # ts)"
proof -
  obtain c cs where d: "decimal n = c # cs" using decimal_nonempty [of n] by (cases "decimal n") auto
  have c: "is_digit c" using decimal_digits [of n] d by simp
  have "token_at (c # cs @ CHR ''.'' # ds @ rest) = number_at (c # cs @ CHR ''.'' # ds @ rest)"
    using c by (simp add: token_at_def is_digit_char)
  also have "\<dots> = Inr (Some (TConst (VFloat (fraction_value n ds))), Suc (length cs + (1 + length ds)))"
    using number_at_fraction [OF assms(1,2), of n] d by simp
  finally have "tokenize 0 (c # cs @ CHR ''.'' # ds @ rest) =
      Inr (TConst (VFloat (fraction_value n ds)) # ts)"
    using assms(3) by (intro tokenize_token [where n = "length cs + (1 + length ds)"]) simp_all
  with d show ?thesis by simp
qed

lemma ident_start_char:
  "is_ident_start c \<Longrightarrow> \<not> is_space c \<and> \<not> is_digit c \<and> c \<noteq> CHR ''.''"
  by (auto simp: is_ident_start_def is_space_def is_digit_def digit_val_def Let_def)

lemma ends_operand_no_ident: "ends_operand rest \<Longrightarrow> takeWhile is_ident_char rest = []"
  by (cases rest) (auto simp: ends_operand_def not_ident_char)

lemma tokenize_name:
  assumes "is_identifier x" and "ends_operand rest" and "tokenize 0 rest = Inr ts"
  shows "tokenize 0 (x @ rest) = Inr (TName x # ts)"
proof -
  from assms(1) obtain c cs where x: "x = c # cs" and c: "is_ident_start c"
    and all: "list_all is_ident_char x"
    and w: "word_token x = TName x"
    by (cases x) (auto simp: is_identifier_def word_token_def)
  have tw: "takeWhile is_ident_char (x @ rest) = x"
    by (simp add: takeWhile_all all ends_operand_no_ident [OF assms(2)])
  have "token_at (x @ rest) = Inr (Some (TName x), length x)"
    using ident_start_char [OF c] c tw w by (simp add: token_at_def x Let_def)
  then have "tokenize 0 (c # cs @ rest) = Inr (TName x # ts)"
    using assms(3) x by (intro tokenize_token [where n = "length cs"]) simp_all
  with x show ?thesis by simp
qed

lemma tokenize_single:
  assumes "c \<in> set ''+-%()''" and "tokenize 0 cs = Inr ts"
  shows "tokenize 0 (c # cs) = Inr (TOp [c] # ts)"
proof -
  have "token_at (c # cs) = Inr (Some (TOp [c]), Suc 0)"
    using assms(1)
    by (auto simp: token_at_def is_space_def is_digit_def digit_val_def is_ident_start_def)
  then show ?thesis using assms(2) by (intro tokenize_token [where n = 0]) simp_all
qed

lemma starts_operand_hd:
  "starts_operand cs \<Longrightarrow>
   cs \<noteq> [] \<and> hd cs \<noteq> CHR ''*'' \<and> hd cs \<noteq> CHR ''/'' \<and> hd cs \<noteq> CHR ''=''"
  using not_ident_char
  by (cases cs) (auto simp: starts_operand_def not_digit is_ident_char_def)

lemma tokenize_operator:
  assumes "opr \<in> set arithmetic_operators" and "starts_operand cs" and "tokenize 0 cs = Inr ts"
  shows "tokenize 0 (operator_symbol opr @ cs) = Inr (TOp (operator_symbol opr) # ts)"
proof -
  obtain d ds where cs: "cs = d # ds" and d: "d \<noteq> CHR ''*''" "d \<noteq> CHR ''/''" "d \<noteq> CHR ''=''"
    using starts_operand_hd [OF assms(2)] by (cases cs) auto
  consider "opr = Add" | "opr = Sub" | "opr = Mod" | "opr = Mult" | "opr = Div"
    | "opr = FloorDiv" | "opr = Pow_op"
    using assms(1) by (auto simp: arithmetic_operators_def)
  then show ?thesis
  proof cases
    case 1
    then show ?thesis using tokenize_single [of "CHR ''+''" cs ts] assms(3) by simp
  next
    case 2
    then show ?thesis using tokenize_single [of "CHR ''-''" cs ts] assms(3) by simp
  next
    case 3
    then show ?thesis using tokenize_single [of "CHR ''%''" cs ts] assms(3) by simp
  next
    case 4
    have "token_at (CHR ''*'' # cs) = Inr (Some (TOp ''*''), Suc 0)"
      using cs d
      by (simp add: token_at_def is_space_def is_digit_def digit_val_def is_ident_start_def)
    then have "tokenize 0 (CHR ''*'' # cs) = Inr (TOp ''*'' # ts)"
      using assms(3) by (intro tokenize_token [where n = 0]) simp_all
    with 4 show ?thesis by simp
  next
    case 5
    have "token_at (CHR ''/'' # cs) = Inr (Some (TOp ''/''), Suc 0)"
      using cs d
      by (simp add: token_at_def is_space_def is_digit_def digit_val_def is_ident_start_def)
    then have "tokenize 0 (CHR ''/'' # cs) = Inr (TOp ''/'' # ts)"
      using assms(3) by (intro tokenize_token [where n = 0]) simp_all
    with 5 show ?thesis by simp
  next
    case 6
    have "token_at (CHR ''/'' # CHR ''/'' # cs) = Inr (Some (TOp ''//''), Suc (Suc 0))"
      by (simp add: token_at_def is_space_def is_digit_def digit_val_def is_ident_start_def)
    then have "tokenize 0 (CHR ''/'' # CHR ''/'' # cs) = Inr (TOp ''//'' # ts)"
      using assms(3) by (intro tokenize_token [where n = "Suc 0"]) simp_all
    with 6 show ?thesis by simp
  next
    case 7
    have "token_at (CHR ''*'' # CHR ''*'' # cs) = Inr (Some (TOp ''**''), Suc (Suc 0))"
      by (simp add: token_at_def is_space_def is_digit_def digit_val_def is_ident_start_def)
    then have "tokenize 0 (CHR ''*'' # CHR ''*'' # cs) = Inr (TOp ''**'' # ts)"
      using assms(3) by (intro tokenize_token [where n = "Suc 0"]) simp_all
    with 7 show ?thesis by simp
  qed
qed

lemma text_starts_operand:
  "grammatical p \<Longrightarrow> starts_operand (text_of pow p @ rest)"
proof (induction p arbitrary: rest)
  case (Number n)
  obtain c cs where d: "decimal n = c # cs"
    using decimal_nonempty [of n] by (cases "decimal n") auto
  have "is_digit c" using decimal_digits [of n] d by simp
  with d show ?case by (simp add: starts_operand_def)
next
  case (Fraction n ds)
  obtain c cs where d: "decimal n = c # cs"
    using decimal_nonempty [of n] by (cases "decimal n") auto
  have "is_digit c" using decimal_digits [of n] d by simp
  with d show ?case by (simp add: starts_operand_def)
next
  case (Named x)
  then show ?case by (cases x) (auto simp: is_identifier_def starts_operand_def)
next
  case (Group p)
  then show ?case by (simp add: starts_operand_def)
next
  case (Signed opr p)
  then show ?case by (auto simp: sign_symbol_def starts_operand_def)
next
  case (Binary l opr r)
  from Binary.prems have "grammatical l" by simp
  from Binary.IH(1) [OF this] show ?case by simp
qed

lemma tokenize_text:
  "grammatical p \<Longrightarrow> ends_operand rest \<Longrightarrow> tokenize 0 rest = Inr ts \<Longrightarrow>
   tokenize 0 (text_of ''**'' p @ rest) = Inr (tokens_of p @ ts)"
proof (induction p arbitrary: rest ts)
  case (Number n)
  from tokenize_decimal [OF Number.prems(2,3), of n] show ?case by simp
next
  case (Fraction n ds)
  from Fraction.prems(1) have "list_all is_digit ds" by simp
  from tokenize_fraction [OF Fraction.prems(2) this Fraction.prems(3), of n] show ?case by simp
next
  case (Named x)
  from Named.prems(1) have "is_identifier x" by simp
  from tokenize_name [OF this Named.prems(2,3)] show ?case by simp
next
  case (Group p)
  from Group.prems(1) have p: "grammatical p" by simp
  have "tokenize 0 (CHR '')'' # rest) = Inr (TOp '')'' # ts)"
    using Group.prems(3) by (intro tokenize_single) simp_all
  then have "tokenize 0 (text_of ''**'' p @ CHR '')'' # rest) = Inr (tokens_of p @ TOp '')'' # ts)"
    by (intro Group.IH [OF p]) (simp_all add: ends_operand_def)
  then have "tokenize 0 (CHR ''('' # text_of ''**'' p @ CHR '')'' # rest) =
      Inr (TOp ''('' # tokens_of p @ TOp '')'' # ts)"
    by (intro tokenize_single) simp_all
  then show ?case by simp
next
  case (Signed opr p)
  from Signed.prems(1) have p: "grammatical p" and opr: "opr = UAdd \<or> opr = USub" by simp_all
  have "tokenize 0 (text_of ''**'' p @ rest) = Inr (tokens_of p @ ts)"
    by (rule Signed.IH [OF p Signed.prems(2,3)])
  then show ?case
    using opr tokenize_single [of "CHR ''+''" "text_of ''**'' p @ rest" "tokens_of p @ ts"]
      tokenize_single [of "CHR ''-''" "text_of ''**'' p @ rest" "tokens_of p @ ts"]
    by (auto simp: sign_symbol_def)
next
  case (Binary l opr r)
  from Binary.prems(1) have l: "grammatical l" and r: "grammatical r"
    and opr: "opr \<in> set arithmetic_operators" by simp_all
  have sym: "(if opr = Pow_op then ''**'' else operator_symbol opr) = operator_symbol opr"
    by simp
  have ends: "ends_operand (operator_symbol opr @ cs)" for cs
    using opr by (auto simp: arithmetic_operators_def ends_operand_def)
  have "tokenize 0 (text_of ''**'' r @ rest) = Inr (tokens_of r @ ts)"
    by (rule Binary.IH(2) [OF r Binary.prems(2,3)])
  then have "tokenize 0 (operator_symbol opr @ text_of ''**'' r @ rest) =
      Inr (TOp (operator_symbol opr) # tokens_of r @ ts)"
    by (intro tokenize_operator [OF opr] text_starts_operand [OF r])
  then show ?case
    using Binary.IH(1) [OF l ends, of "text_of ''**'' r @ rest"
        "TOp (operator_symbol opr) # tokens_of r @ ts"]
    by (simp add: sym del: operator_symbol.simps)
qed

subsubsection \<open>The productions of the parser\<close>

lemma reads_mono: "reads g m toks res \<Longrightarrow> m \<le> m' \<Longrightarrow> reads g m' toks res"
  by (simp add: reads_def)

lemma reads_step:
  assumes "\<And>n. m \<le> n \<Longrightarrow> parse_step (parse_goal n) g toks = Inr res"
  shows "reads g (Suc m) toks res"
  unfolding reads_def
proof (intro allI impI)
  fix n assume "Suc m \<le> n"
  then obtain n' where n: "n = Suc n'" and "m \<le> n'" by (cases n) auto
  with assms show "parse_goal n g toks = Inr res" by simp
qed

lemma reads_at: "reads g m toks res \<Longrightarrow> m \<le> n \<Longrightarrow> parse_goal n g toks = Inr res"
  by (simp add: reads_def)

lemma reads_const: "reads GAtom (Suc 0) (TConst v # r) (Constant v, r)"
  by (rule reads_step) simp

lemma reads_name: "reads GAtom (Suc 0) (TName x # r) (Name x, r)"
  by (rule reads_step) simp

lemma reads_paren:
  assumes "\<not> starts_with '')'' r" and "reads (GBool Or) m r (e, r1)" and "starts_with '')'' r1"
  shows "reads GAtom (Suc m) (TOp ''('' # r) (e, tl r1)"
  by (rule reads_step) (simp add: assms(1,3) reads_at [OF assms(2)] pbind_def)

lemma reads_sign:
  assumes "opr = UAdd \<or> opr = USub" and "reads GFactor m toks (e, r)"
  shows "reads GFactor (Suc m) (TOp (sign_symbol opr) # toks) (UnaryOp opr e, r)"
  using assms(1)
  by (intro reads_step) (auto simp: sign_symbol_def starts_with_def reads_at [OF assms(2)] pbind_def)

lemma reads_primary:
  assumes "\<not> starts_with ''+'' toks" and "\<not> starts_with ''-'' toks"
    and "reads GAtom m toks (a, r)"
    and "\<not> starts_with ''('' r" and "\<not> starts_with ''['' r" and "\<not> is_attribute r"
    and "\<not> starts_with ''**'' r"
  shows "reads GFactor (Suc (max m (Suc 0))) toks (a, r)"
proof (rule reads_step)
  fix n assume n: "max m (Suc 0) \<le> n"
  then obtain n' where n': "n = Suc n'" by (cases n) auto
  have "parse_goal n (GTrailers a) r = Inr (a, r)"
    using assms(4,5,6) by (simp add: n')
  moreover have "parse_goal n GAtom toks = Inr (a, r)"
    using n by (intro reads_at [OF assms(3)]) simp
  ultimately show "parse_step (parse_goal n) GFactor toks = Inr (a, r)"
    using assms(1,2,7) by (simp add: pbind_def)
qed

lemma reads_power:
  assumes "\<not> starts_with ''+'' toks" and "\<not> starts_with ''-'' toks"
    and "reads GAtom m1 toks (a, TOp ''**'' # r)"
    and "reads GFactor m2 r (f, r')"
  shows "reads GFactor (Suc (max (Suc m1) m2)) toks (BinOp a Pow_op f, r')"
proof (rule reads_step)
  fix n assume n: "max (Suc m1) m2 \<le> n"
  then obtain n' where n': "n = Suc n'" by (cases n) auto
  have "parse_goal n (GTrailers a) (TOp ''**'' # r) = Inr (a, TOp ''**'' # r)"
    by (simp add: n' starts_with_def is_attribute_def split: list.splits token.splits)
  moreover have "parse_goal n GAtom toks = Inr (a, TOp ''**'' # r)"
    using n by (intro reads_at [OF assms(3)]) simp
  moreover have "parse_goal n GFactor r = Inr (f, r')"
    using n by (intro reads_at [OF assms(4)]) simp
  ultimately show "parse_step (parse_goal n) GFactor toks = Inr (BinOp a Pow_op f, r')"
    using assms(1,2) by (simp add: pbind_def starts_with_def)
qed

lemma reads_chain:
  assumes "reads (term_goal lvl) m1 toks (e, r)" and "reads (GBinRest lvl e) m2 r res"
  shows "reads (GBin lvl) (Suc (max m1 m2)) toks res"
proof (rule reads_step)
  fix n assume n: "max m1 m2 \<le> n"
  have "parse_goal n (term_goal lvl) toks = Inr (e, r)"
    using n by (intro reads_at [OF assms(1)]) simp
  moreover have "parse_goal n (GBinRest lvl e) r = Inr res"
    using n by (intro reads_at [OF assms(2)]) simp
  ultimately show "parse_step (parse_goal n) (GBin lvl) toks = Inr res"
    by (simp add: pbind_def)
qed

lemma reads_chain_end:
  assumes "binop_of lvl toks = None"
  shows "reads (GBinRest lvl left) (Suc 0) toks (left, toks)"
  by (rule reads_step) (simp add: assms)

lemma reads_chain_more:
  assumes "binop_of lvl (t # toks) = Some b"
    and "reads (term_goal lvl) m1 toks (e, r)"
    and "reads (GBinRest lvl (BinOp left b e)) m2 r res"
  shows "reads (GBinRest lvl left) (Suc (max m1 m2)) (t # toks) res"
proof (rule reads_step)
  fix n assume n: "max m1 m2 \<le> n"
  have "parse_goal n (term_goal lvl) toks = Inr (e, r)"
    using n by (intro reads_at [OF assms(2)]) simp
  moreover have "parse_goal n (GBinRest lvl (BinOp left b e)) r = Inr res"
    using n by (intro reads_at [OF assms(3)]) simp
  ultimately show "parse_step (parse_goal n) (GBinRest lvl left) (t # toks) = Inr res"
    using assms(1) by (simp add: pbind_def)
qed

lemma reads_whole:
  assumes "reads (GBin 0) m toks (e, r)" and "\<not> starts_with ''not'' toks"
    and "cmpop_of r = None" and "\<not> starts_with ''and'' r" and "\<not> starts_with ''or'' r"
  shows "reads (GBool Or) (Suc (Suc (Suc (max m (Suc 0))))) toks (e, r)"
proof -
  have c: "reads (GCmpRest e [] []) (Suc 0) r (e, r)"
    by (rule reads_step) (simp add: assms(3))
  have n: "reads GNot (Suc (max m (Suc 0))) toks (e, r)"
  proof (rule reads_step)
    fix n assume "max m (Suc 0) \<le> n"
    then have "parse_goal n (GBin 0) toks = Inr (e, r)"
      "parse_goal n (GCmpRest e [] []) r = Inr (e, r)"
      by (auto intro: reads_at [OF assms(1)] reads_at [OF c])
    then show "parse_step (parse_goal n) GNot toks = Inr (e, r)"
      using assms(2) by (simp add: pbind_def)
  qed
  have ar: "reads (GBoolRest And [e]) (Suc 0) r (e, r)"
    by (rule reads_step) (simp add: assms(4) boolop_word_def mk_bool_def)
  have a: "reads (GBool And) (Suc (Suc (max m (Suc 0)))) toks (e, r)"
  proof (rule reads_step)
    fix n assume "Suc (max m (Suc 0)) \<le> n"
    then have "parse_goal n GNot toks = Inr (e, r)"
      "parse_goal n (GBoolRest And [e]) r = Inr (e, r)"
      by (auto intro: reads_at [OF n] reads_at [OF ar])
    then show "parse_step (parse_goal n) (GBool And) toks = Inr (e, r)"
      by (simp add: pbind_def operand_goal_def)
  qed
  have orr: "reads (GBoolRest Or [e]) (Suc 0) r (e, r)"
    by (rule reads_step) (simp add: assms(5) boolop_word_def mk_bool_def)
  show ?thesis
  proof (rule reads_step)
    fix n assume "Suc (Suc (max m (Suc 0))) \<le> n"
    then have "parse_goal n (GBool And) toks = Inr (e, r)"
      "parse_goal n (GBoolRest Or [e]) r = Inr (e, r)"
      by (auto intro: reads_at [OF a] reads_at [OF orr])
    then show "parse_step (parse_goal n) (GBool Or) toks = Inr (e, r)"
      by (simp add: pbind_def operand_goal_def)
  qed
qed

subsubsection \<open>The tokens at the borders of a phrase\<close>

lemma tokens_start:
  "grammatical p \<Longrightarrow> starts_level (level p) (tokens_of p @ rest)"
proof (induction p arbitrary: rest)
  case (Signed opr p)
  then show ?case by (auto simp: sign_symbol_def starts_level_def)
next
  case (Binary l opr r)
  from Binary.prems have l: "grammatical l" and opr: "opr \<in> set arithmetic_operators"
    and lv: "left_level opr \<le> level l" by simp_all
  have "starts_level (level l) (tokens_of l @ TOp (operator_symbol opr) # tokens_of r @ rest)"
    by (rule Binary.IH(1) [OF l])
  moreover have "level l \<le> 2 \<longrightarrow> operator_level opr \<le> 2"
    using lv opr by (auto simp: arithmetic_operators_def)
  ultimately show ?case
    by (auto simp: starts_level_def split: list.splits token.splits)
qed (simp_all add: starts_level_def)

lemma tokens_nonempty: "grammatical p \<Longrightarrow> 0 < length (tokens_of p)"
  using tokens_start [of p "[]"] by (cases "tokens_of p") (simp_all add: starts_level_def)

lemma starts_level_facts:
  assumes "starts_level k toks"
  shows "\<not> starts_with '')'' toks" and "\<not> starts_with ''not'' toks"
    and "2 < k \<Longrightarrow> \<not> starts_with ''+'' toks" and "2 < k \<Longrightarrow> \<not> starts_with ''-'' toks"
  using assms by (auto simp: starts_level_def starts_with_def split: list.splits token.splits)

lemma is_attribute_starts:
  assumes a: "is_attribute toks"
  shows "starts_with ''.'' toks"
proof (cases toks)
  case Nil
  with a show ?thesis by (simp add: is_attribute_def)
next
  case (Cons t ts)
  show ?thesis
  proof (cases t)
    case (TOp w)
    with a Cons show ?thesis
      by (cases ts) (auto simp: is_attribute_def starts_with_def split: token.splits)
  qed (use a Cons in \<open>simp_all add: is_attribute_def\<close>)
qed

lemma ends_level_facts:
  assumes "ends_level k rest" and "k \<le> 2"
  shows "\<not> starts_with ''('' rest" and "\<not> starts_with ''['' rest" and "\<not> is_attribute rest"
    and "\<not> starts_with ''**'' rest" and "ends_level 2 rest"
    and "k \<le> 1 \<Longrightarrow> binop_of 1 rest = None" and "k \<le> 1 \<Longrightarrow> ends_level 1 rest"
    and "k = 0 \<Longrightarrow> binop_of 0 rest = None" and "k = 0 \<Longrightarrow> cmpop_of rest = None"
    and "k = 0 \<Longrightarrow> \<not> starts_with ''and'' rest" and "k = 0 \<Longrightarrow> \<not> starts_with ''or'' rest"
proof -
  have "\<not> starts_with ''.'' rest"
    using assms by (auto simp: ends_level_def starts_with_def split: list.splits token.splits)
  then show "\<not> is_attribute rest" using is_attribute_starts by blast
qed (use assms in \<open>auto simp: ends_level_def starts_with_def split: list.splits token.splits\<close>)

subsubsection \<open>The parser on the tokens of a phrase\<close>

lemma at_atom_number: "at_atom (Number n)" "at_atom (Fraction n ds)"
  unfolding at_atom_def by (auto intro: reads_mono [OF reads_const])

lemma at_atom_name: "at_atom (Named x)"
  unfolding at_atom_def by (auto intro: reads_mono [OF reads_name])

lemma at_atom_group:
  assumes "grammatical p" and "at_whole p"
  shows "at_atom (Group p)"
  unfolding at_atom_def
proof
  fix rest
  have "reads (GBool Or) (4 * length (tokens_of p) + 6) (tokens_of p @ TOp '')'' # rest)
      (tree_of p, TOp '')'' # rest)"
    using assms(2) by (simp add: at_whole_def ends_level_def)
  then have "reads GAtom (Suc (4 * length (tokens_of p) + 6))
      (TOp ''('' # tokens_of p @ TOp '')'' # rest) (tree_of p, tl (TOp '')'' # rest))"
    by (intro reads_paren starts_level_facts(1) [OF tokens_start [OF assms(1)]])
      (simp_all add: starts_with_def)
  then show "reads GAtom (4 * length (tokens_of (Group p))) (tokens_of (Group p) @ rest)
      (tree_of (Group p), rest)"
    by (auto intro: reads_mono)
qed

lemma at_factor_atom:
  assumes "grammatical p" and "2 < level p" and "at_atom p"
  shows "at_factor p"
  unfolding at_factor_def
proof (intro allI impI)
  fix rest assume rest: "ends_level 2 rest"
  have st: "starts_level (level p) (tokens_of p @ rest)" by (rule tokens_start [OF assms(1)])
  have "reads GAtom (4 * length (tokens_of p)) (tokens_of p @ rest) (tree_of p, rest)"
    using assms(3) by (simp add: at_atom_def)
  then have "reads GFactor (Suc (max (4 * length (tokens_of p)) (Suc 0)))
      (tokens_of p @ rest) (tree_of p, rest)"
    using ends_level_facts(1-4) [OF rest] starts_level_facts(3,4) [OF st assms(2)]
    by (intro reads_primary) simp_all
  then show "reads GFactor (4 * length (tokens_of p) + 1) (tokens_of p @ rest) (tree_of p, rest)"
    using tokens_nonempty [OF assms(1)] by (auto intro: reads_mono)
qed

lemma at_factor_sign:
  assumes "opr = UAdd \<or> opr = USub" and "at_factor p"
  shows "at_factor (Signed opr p)"
  unfolding at_factor_def
proof (intro allI impI)
  fix rest assume rest: "ends_level 2 rest"
  have "reads GFactor (4 * length (tokens_of p) + 1) (tokens_of p @ rest) (tree_of p, rest)"
    using assms(2) rest by (simp add: at_factor_def)
  from reads_sign [OF assms(1) this]
  show "reads GFactor (4 * length (tokens_of (Signed opr p)) + 1)
      (tokens_of (Signed opr p) @ rest) (tree_of (Signed opr p), rest)"
    by (auto intro: reads_mono)
qed

lemma at_factor_power:
  assumes "grammatical l" and "2 < level l" and "at_atom l" and "at_factor r"
  shows "at_factor (Binary l Pow_op r)"
  unfolding at_factor_def
proof (intro allI impI)
  fix rest assume rest: "ends_level 2 rest"
  let ?toks = "tokens_of l @ TOp ''**'' # tokens_of r @ rest"
  have st: "starts_level (level l) ?toks" by (rule tokens_start [OF assms(1)])
  have a: "reads GAtom (4 * length (tokens_of l)) ?toks (tree_of l, TOp ''**'' # tokens_of r @ rest)"
    using assms(3) by (simp add: at_atom_def)
  have f: "reads GFactor (4 * length (tokens_of r) + 1) (tokens_of r @ rest) (tree_of r, rest)"
    using assms(4) rest by (simp add: at_factor_def)
  have "reads GFactor (Suc (max (Suc (4 * length (tokens_of l))) (4 * length (tokens_of r) + 1)))
      ?toks (BinOp (tree_of l) Pow_op (tree_of r), rest)"
    using starts_level_facts(3,4) [OF st assms(2)] by (intro reads_power [OF _ _ a f]) simp_all
  then show "reads GFactor (4 * length (tokens_of (Binary l Pow_op r)) + 1)
      (tokens_of (Binary l Pow_op r) @ rest) (tree_of (Binary l Pow_op r), rest)"
    by (auto intro: reads_mono)
qed

text \<open>A phrase that is no chain of its level is read by the goal of the operands.\<close>

lemma at_chain_single:
  assumes "grammatical p" and "lvl \<le> 1"
    and "\<And>rest. ends_level (Suc lvl) rest \<Longrightarrow>
           reads (term_goal lvl) (4 * length (tokens_of p) + 2 - lvl) (tokens_of p @ rest)
             (tree_of p, rest)"
  shows "at_chain lvl p"
  unfolding at_chain_def
proof (intro allI impI)
  fix rest m res
  assume rest: "ends_level (Suc lvl) rest" and cont: "reads (GBinRest lvl (tree_of p)) m rest res"
  have "Suc (max (4 * length (tokens_of p) + 2 - lvl) m)
      \<le> max (m + length (tokens_of p)) (4 * length (tokens_of p) + 3 - lvl)"
    using tokens_nonempty [OF assms(1)] assms(2) by linarith
  with reads_chain [OF assms(3) [OF rest] cont]
  show "reads (GBin lvl) (max (m + length (tokens_of p)) (4 * length (tokens_of p) + 3 - lvl))
      (tokens_of p @ rest) res"
    by (rule reads_mono)
qed

text \<open>A chain that is followed by no operator of its level is read as a whole.\<close>

lemma at_chain_whole:
  assumes "at_chain lvl p" and "ends_level lvl rest" and "lvl \<le> 1"
  shows "reads (GBin lvl) (4 * length (tokens_of p) + 3 - lvl) (tokens_of p @ rest)
      (tree_of p, rest)"
proof -
  have none: "binop_of lvl rest = None"
  proof (cases rest)
    case (Cons t ts)
    with assms(2,3) show ?thesis by (cases t) (auto simp: ends_level_def le_Suc_eq)
  qed simp
  have e2: "ends_level (Suc lvl) rest"
    using assms(2,3)
    by (auto simp: ends_level_def le_Suc_eq split: list.splits token.splits)
  have "reads (GBinRest lvl (tree_of p)) (Suc 0) rest (tree_of p, rest)"
    by (rule reads_chain_end [OF none])
  with assms(1) e2 have "reads (GBin lvl)
      (max (Suc 0 + length (tokens_of p)) (4 * length (tokens_of p) + 3 - lvl))
      (tokens_of p @ rest) (tree_of p, rest)"
    unfolding at_chain_def by blast
  moreover have "max (Suc 0 + length (tokens_of p)) (4 * length (tokens_of p) + 3 - lvl)
      \<le> 4 * length (tokens_of p) + 3 - lvl"
    using assms(3) by linarith
  ultimately show ?thesis by (rule reads_mono)
qed

lemma chain_bound:
  "lvl \<le> (1::nat) \<Longrightarrow>
   max (Suc (max (4 * b + 2 - lvl) m) + a) (4 * a + 3 - lvl)
     \<le> max (m + (a + Suc b)) (4 * (a + Suc b) + 3 - lvl)"
  by (cases "lvl = 0") (auto simp: max_def)

lemma at_chain_more:
  assumes "operator_level opr = lvl" and "lvl \<le> 1" and "opr \<in> set arithmetic_operators"
    and "at_chain lvl l"
    and "\<And>rest. ends_level (Suc lvl) rest \<Longrightarrow>
           reads (term_goal lvl) (4 * length (tokens_of r) + 2 - lvl) (tokens_of r @ rest)
             (tree_of r, rest)"
  shows "at_chain lvl (Binary l opr r)"
  unfolding at_chain_def
proof (intro allI impI)
  fix rest m res
  assume rest: "ends_level (Suc lvl) rest"
    and cont: "reads (GBinRest lvl (tree_of (Binary l opr r))) m rest res"
  let ?rest = "TOp (operator_symbol opr) # tokens_of r @ rest"
  have b: "binop_of lvl ?rest = Some opr"
    using assms(1,2,3) by (auto simp: arithmetic_operators_def)
  have e: "ends_level (Suc lvl) ?rest"
    using assms(1,2,3) by (auto simp: arithmetic_operators_def ends_level_def)
  from cont have cont': "reads (GBinRest lvl (BinOp (tree_of l) opr (tree_of r))) m rest res"
    by simp
  have "reads (GBinRest lvl (tree_of l)) (Suc (max (4 * length (tokens_of r) + 2 - lvl) m)) ?rest res"
    by (rule reads_chain_more [OF b assms(5) [OF rest] cont'])
  with assms(4) e have "reads (GBin lvl)
      (max (Suc (max (4 * length (tokens_of r) + 2 - lvl) m) + length (tokens_of l))
           (4 * length (tokens_of l) + 3 - lvl))
      (tokens_of l @ ?rest) res"
    unfolding at_chain_def by blast
  moreover have
    "max (Suc (max (4 * length (tokens_of r) + 2 - lvl) m) + length (tokens_of l))
         (4 * length (tokens_of l) + 3 - lvl)
     \<le> max (m + (length (tokens_of l) + Suc (length (tokens_of r))))
           (4 * (length (tokens_of l) + Suc (length (tokens_of r))) + 3 - lvl)"
    by (rule chain_bound [OF assms(2)])
  ultimately show "reads (GBin lvl)
      (max (m + length (tokens_of (Binary l opr r)))
           (4 * length (tokens_of (Binary l opr r)) + 3 - lvl))
      (tokens_of (Binary l opr r) @ rest) res"
    by (auto intro: reads_mono)
qed

lemma at_whole_sum:
  assumes "grammatical p" and "at_chain 0 p"
  shows "at_whole p"
  unfolding at_whole_def
proof (intro allI impI)
  fix rest assume rest: "ends_level 0 rest"
  have "reads (GBin 0) (4 * length (tokens_of p) + 3 - 0) (tokens_of p @ rest) (tree_of p, rest)"
    using rest by (intro at_chain_whole [OF assms(2)]) simp_all
  then have "reads (GBool Or) (Suc (Suc (Suc (max (4 * length (tokens_of p) + 3 - 0) (Suc 0)))))
      (tokens_of p @ rest) (tree_of p, rest)"
    using ends_level_facts(9,10,11) [OF rest]
      starts_level_facts(2) [OF tokens_start [OF assms(1), of rest]]
    by (intro reads_whole) simp_all
  then show "reads (GBool Or) (4 * length (tokens_of p) + 6) (tokens_of p @ rest) (tree_of p, rest)"
    by (auto intro: reads_mono)
qed

lemma reads_factor:
  assumes "at_factor p" and "ends_level (Suc 1) rest"
  shows "reads (term_goal 1) (4 * length (tokens_of p) + 2 - 1) (tokens_of p @ rest)
      (tree_of p, rest)"
proof -
  from assms(2) have "ends_level 2 rest" by (simp add: numeral_2_eq_2)
  with assms(1) have "reads GFactor (4 * length (tokens_of p) + 1) (tokens_of p @ rest)
      (tree_of p, rest)"
    unfolding at_factor_def by blast
  then show ?thesis by (simp add: term_goal_def)
qed

lemma reads_term:
  assumes "at_chain 1 p" and "ends_level (Suc 0) rest"
  shows "reads (term_goal 0) (4 * length (tokens_of p) + 2 - 0) (tokens_of p @ rest)
      (tree_of p, rest)"
  using at_chain_whole [OF assms(1), of rest] assms(2) by (simp add: term_goal_def)

lemma at_chain_of_factor:
  assumes "grammatical p" and "at_factor p"
  shows "at_chain 1 p"
proof (rule at_chain_single [OF assms(1)])
  fix rest assume "ends_level (Suc 1) rest"
  then show "reads (term_goal 1) (4 * length (tokens_of p) + 2 - 1) (tokens_of p @ rest)
      (tree_of p, rest)"
    by (rule reads_factor [OF assms(2)])
qed simp

lemma at_chain_of_term:
  assumes "grammatical p" and "at_chain 1 p"
  shows "at_chain 0 p"
proof (rule at_chain_single [OF assms(1)])
  fix rest assume "ends_level (Suc 0) rest"
  then show "reads (term_goal 0) (4 * length (tokens_of p) + 2 - 0) (tokens_of p @ rest)
      (tree_of p, rest)"
    by (rule reads_term [OF assms(2)])
qed simp

text \<open>The parser reads the tokens of a phrase, at every level that the phrase is of and
  followed by whatever can follow that level, as the tree of the phrase.\<close>

lemma parser_reads:
  "grammatical p \<Longrightarrow>
   (4 \<le> level p \<longrightarrow> at_atom p) \<and> (2 \<le> level p \<longrightarrow> at_factor p) \<and> (1 \<le> level p \<longrightarrow> at_chain 1 p) \<and>
   at_chain 0 p \<and> at_whole p"
proof (induction p)
  case (Number n)
  have a: "at_atom (Number n)" by (rule at_atom_number)
  have f: "at_factor (Number n)" by (rule at_factor_atom [OF Number _ a]) simp
  have c1: "at_chain 1 (Number n)" by (rule at_chain_of_factor [OF Number f])
  have c0: "at_chain 0 (Number n)" by (rule at_chain_of_term [OF Number c1])
  from a f c1 c0 at_whole_sum [OF Number c0] show ?case by simp
next
  case (Fraction n ds)
  have a: "at_atom (Fraction n ds)" by (rule at_atom_number)
  have f: "at_factor (Fraction n ds)" by (rule at_factor_atom [OF Fraction _ a]) simp
  have c1: "at_chain 1 (Fraction n ds)" by (rule at_chain_of_factor [OF Fraction f])
  have c0: "at_chain 0 (Fraction n ds)" by (rule at_chain_of_term [OF Fraction c1])
  from a f c1 c0 at_whole_sum [OF Fraction c0] show ?case by simp
next
  case (Named x)
  have a: "at_atom (Named x)" by (rule at_atom_name)
  have f: "at_factor (Named x)" by (rule at_factor_atom [OF Named _ a]) simp
  have c1: "at_chain 1 (Named x)" by (rule at_chain_of_factor [OF Named f])
  have c0: "at_chain 0 (Named x)" by (rule at_chain_of_term [OF Named c1])
  from a f c1 c0 at_whole_sum [OF Named c0] show ?case by simp
next
  case (Group p)
  from Group.prems have p: "grammatical p" by simp
  have a: "at_atom (Group p)" using Group.IH [OF p] by (intro at_atom_group [OF p]) simp
  have f: "at_factor (Group p)" by (rule at_factor_atom [OF Group.prems _ a]) simp
  have c1: "at_chain 1 (Group p)" by (rule at_chain_of_factor [OF Group.prems f])
  have c0: "at_chain 0 (Group p)" by (rule at_chain_of_term [OF Group.prems c1])
  from a f c1 c0 at_whole_sum [OF Group.prems c0] show ?case by simp
next
  case (Signed opr p)
  from Signed.prems have p: "grammatical p" and opr: "opr = UAdd \<or> opr = USub"
    and lv: "2 \<le> level p" by simp_all
  have f: "at_factor (Signed opr p)"
    using Signed.IH [OF p] lv by (intro at_factor_sign [OF opr]) simp
  have c1: "at_chain 1 (Signed opr p)" by (rule at_chain_of_factor [OF Signed.prems f])
  have c0: "at_chain 0 (Signed opr p)" by (rule at_chain_of_term [OF Signed.prems c1])
  from f c1 c0 at_whole_sum [OF Signed.prems c0] show ?case by simp
next
  case (Binary l opr r)
  let ?p = "Binary l opr r"
  from Binary.prems have l: "grammatical l" and r: "grammatical r"
    and opr: "opr \<in> set arithmetic_operators"
    and ll: "left_level opr \<le> level l" and lr: "right_level opr \<le> level r" by simp_all
  note ihl = Binary.IH(1) [OF l] and ihr = Binary.IH(2) [OF r]
  consider "operator_level opr = 0" | "operator_level opr = 1" | "opr = Pow_op"
    using opr by (auto simp: arithmetic_operators_def)
  then show ?case
  proof cases
    case 1
    then have "1 \<le> level r" using lr opr by (auto simp: arithmetic_operators_def)
    then have c0: "at_chain 0 ?p"
      using ihl ihr by (intro at_chain_more [OF 1 _ opr] reads_term) simp_all
    from c0 at_whole_sum [OF Binary.prems c0] 1 show ?thesis by simp
  next
    case 2
    then have "1 \<le> level l" "2 \<le> level r" using ll lr opr by (auto simp: arithmetic_operators_def)
    then have c1: "at_chain 1 ?p"
      using ihl ihr by (intro at_chain_more [OF 2 _ opr] reads_factor) simp_all
    have c0: "at_chain 0 ?p" by (rule at_chain_of_term [OF Binary.prems c1])
    from c1 c0 at_whole_sum [OF Binary.prems c0] 2 show ?thesis by simp
  next
    case 3
    then have lv: "4 \<le> level l" "2 < level l" "2 \<le> level r" using ll lr by simp_all
    have f: "at_factor ?p"
      unfolding 3 using ihl ihr lv by (intro at_factor_power [OF l]) simp_all
    have c1: "at_chain 1 ?p" by (rule at_chain_of_factor [OF Binary.prems f])
    have c0: "at_chain 0 ?p" by (rule at_chain_of_term [OF Binary.prems c1])
    from f c1 c0 at_whole_sum [OF Binary.prems c0] 3 show ?thesis by simp
  qed
qed

lemma parse_tokens_phrase:
  assumes "grammatical p"
  shows "parse_tokens (tokens_of p) = Inr (tree_of p)"
proof -
  from parser_reads [OF assms] have "at_whole p" by simp
  moreover have "ends_level 0 []" by (simp add: ends_level_def)
  ultimately have "reads (GBool Or) (4 * length (tokens_of p) + 6) (tokens_of p @ [])
      (tree_of p, [])"
    unfolding at_whole_def by blast
  then have "parse_goal (16 * (length (tokens_of p) + 1)) (GBool Or) (tokens_of p) =
      Inr (tree_of p, [])"
    by (auto dest: reads_at [where n = "16 * (length (tokens_of p) + 1)"])
  then show ?thesis by (simp add: parse_tokens_def)
qed

text \<open>The text of a phrase, with \<open>**\<close> for the power, is parsed as the tree of the phrase.\<close>

lemma ast_parse_text:
  assumes "grammatical p"
  shows "ast_parse (text_of ''**'' p) = Inr (tree_of p)"
proof -
  have "tokenize 0 (text_of ''**'' p @ []) = Inr (tokens_of p @ [])"
    by (rule tokenize_text [OF assms]) (simp_all add: ends_operand_def)
  then show ?thesis by (simp add: ast_parse_def parse_tokens_phrase [OF assms])
qed

subsubsection \<open>The result of calculate\<close>

text \<open>Some phrases and their texts. A parenthesis is a \<open>Group\<close>; without it, the operands
  of a phrase must be of the levels of the grammar: \<open>2+3*4\<close> is the sum of 2 and a
  product, and the product of a sum and 4 is no phrase unless the sum is grouped.\<close>

lemma phrase_examples:
  "written (Binary (Number 2) Add (Binary (Number 3) Mult (Number 4))) = ''2+3*4''"
  "\<not> grammatical (Binary (Binary (Number 2) Add (Number 3)) Mult (Number 4))"
  "written (Binary (Group (Binary (Number 2) Add (Number 3))) Mult (Number 4)) = ''(2+3)*4''"
  "written (Binary (Number 2) Pow_op (Binary (Number 3) Pow_op (Number 2))) = ''2^3^2''"
  "\<not> grammatical (Binary (Binary (Number 2) Pow_op (Number 3)) Pow_op (Number 2))"
  "written (Binary (Binary (Number 2) Sub (Number 3)) Sub (Number 4)) = ''2-3-4''"
  "\<not> grammatical (Binary (Number 2) Sub (Binary (Number 3) Sub (Number 4)))"
  "written (Signed USub (Binary (Number 2) Pow_op (Number 2))) = ''-2^2''"
  "\<not> grammatical (Binary (Signed USub (Number 2)) Pow_op (Number 2))"
  "written (Binary (Number 2) Pow_op (Signed USub (Number 1))) = ''2^-1''"
  "written (Binary (Signed USub (Number 2)) Add (Number 3)) = ''-2+3''"
  "\<not> grammatical (Signed USub (Binary (Number 2) Add (Number 3)))"
  "written (Binary (Fraction 2 ''5'') Mult (Named ''pi'')) = ''2.5*pi''"
  by code_simp+

text \<open>
  C4. For every phrase of the arithmetic grammar - decimal numbers, names, unary signs,
  the seven binary operators and parentheses, each operand of the level that the
  grammar asks for - and every text that, its spaces removed, is the text of the
  phrase with \<open>^\<close> for the power, \<^verbatim>\<open>calculate\<close> returns the value of the tree of the phrase
  in standard arithmetic, with the names of \<^verbatim>\<open>_prepare_names\<close>. So the evaluation groups by the precedence of the grammar:
  the multiplicative operators bind tighter than the additive ones, a sign tighter than
  both, the power tighter than a sign on its left; the binary operators associate to
  the left, the power to the right. In particular \<^verbatim>\<open>calculate("2+3*4")\<close> is 14 and
  \<^verbatim>\<open>calculate("2^3^2")\<close> is 512.
\<close>

theorem calculate_precedence:
  assumes "grammatical p" and "arith_value (prepare_names None) (tree_of p) = Some v"
    and "replace source CHR '' '' [] = written p"
  shows "calculate self (VStr source) s = (v, s)"
  using assms(3) caret_replaced [OF assms(1)] ast_parse_text [OF assms(1)]
    visit_arithmetic [OF assms(2)]
  by (simp add: calculate_def calculate_with_def try_evaluate_def written_def)

theorem calculate_precedence_witness:
  "grammatical (Binary (Number 2) Add (Binary (Number 3) Mult (Number 4))) \<and>
   arith_value (prepare_names None) (tree_of (Binary (Number 2) Add (Binary (Number 3) Mult (Number 4))))
     = Some (VInt 14) \<and>
   replace ''2+3*4'' CHR '' '' [] = written (Binary (Number 2) Add (Binary (Number 3) Mult (Number 4))) \<and>
   calculate init (VStr ''2+3*4'') zeros = (VInt 14, zeros) \<and>
   grammatical (Binary (Number 2) Pow_op (Binary (Number 3) Pow_op (Number 2))) \<and>
   arith_value (prepare_names None) (tree_of (Binary (Number 2) Pow_op (Binary (Number 3) Pow_op (Number 2))))
     = Some (VInt 512) \<and>
   replace ''2^3^2'' CHR '' '' [] =
     written (Binary (Number 2) Pow_op (Binary (Number 3) Pow_op (Number 2))) \<and>
   calculate init (VStr ''2^3^2'') zeros = (VInt 512, zeros) \<and>
   grammatical (Signed USub (Binary (Number 2) Pow_op (Number 2))) \<and>
   arith_value (prepare_names None) (tree_of (Signed USub (Binary (Number 2) Pow_op (Number 2)))) = Some (VInt (- 4)) \<and>
   replace ''- 2 ^ 2'' CHR '' '' [] = written (Signed USub (Binary (Number 2) Pow_op (Number 2))) \<and>
   calculate init (VStr ''- 2 ^ 2'') zeros = (VInt (- 4), zeros) \<and>
   grammatical (Binary (Binary (Number 2) Sub (Number 3)) Sub (Number 4)) \<and>
   arith_value (prepare_names None) (tree_of (Binary (Binary (Number 2) Sub (Number 3)) Sub (Number 4)))
     = Some (VInt (- 5)) \<and>
   replace ''2 - 3 - 4'' CHR '' '' [] =
     written (Binary (Binary (Number 2) Sub (Number 3)) Sub (Number 4)) \<and>
   calculate init (VStr ''2 - 3 - 4'') zeros = (VInt (- 5), zeros) \<and>
   grammatical (Binary (Group (Binary (Number 2) Add (Number 3))) Mult (Number 4)) \<and>
   arith_value (prepare_names None) (tree_of (Binary (Group (Binary (Number 2) Add (Number 3))) Mult (Number 4)))
     = Some (VInt 20) \<and>
   replace ''(2 + 3) * 4'' CHR '' '' [] =
     written (Binary (Group (Binary (Number 2) Add (Number 3))) Mult (Number 4)) \<and>
   calculate init (VStr ''(2 + 3) * 4'') zeros = (VInt 20, zeros) \<and>
   grammatical (Binary (Fraction 2 ''5'') Mult (Named ''pi'')) \<and>
   arith_value (prepare_names None) (tree_of (Binary (Fraction 2 ''5'') Mult (Named ''pi'')))
     = Some (VFloat (5 / 2 * pi)) \<and>
   replace ''2.5 * pi'' CHR '' '' [] = written (Binary (Fraction 2 ''5'') Mult (Named ''pi'')) \<and>
   calculate init (VStr ''2.5 * pi'') zeros = (VFloat (5 / 2 * pi), zeros)"
proof -
  let ?a = "Binary (Number 2) Add (Binary (Number 3) Mult (Number 4))"
  let ?b = "Binary (Number 2) Pow_op (Binary (Number 3) Pow_op (Number 2))"
  let ?c = "Signed USub (Binary (Number 2) Pow_op (Number 2))"
  let ?d = "Binary (Binary (Number 2) Sub (Number 3)) Sub (Number 4)"
  let ?e = "Binary (Group (Binary (Number 2) Add (Number 3))) Mult (Number 4)"
  have a1: "grammatical ?a" by (simp add: arithmetic_operators_def)
  have a2: "arith_value (prepare_names None) (tree_of ?a) = Some (VInt 14)"
    by (simp add: defined_def py_add_def py_mul_def)
  have a3: "replace ''2+3*4'' CHR '' '' [] = written ?a"
    by (simp add: replace_def phrase_examples)
  have b1: "grammatical ?b" by (simp add: arithmetic_operators_def)
  have b2: "arith_value (prepare_names None) (tree_of ?b) = Some (VInt 512)" by (simp add: defined_def py_pow_def)
  have b3: "replace ''2^3^2'' CHR '' '' [] = written ?b"
    by (simp add: replace_def phrase_examples)
  have c1: "grammatical ?c" by (simp add: arithmetic_operators_def)
  have c2: "arith_value (prepare_names None) (tree_of ?c) = Some (VInt (- 4))"
    by (simp add: defined_def py_pow_def py_neg_def)
  have c3: "replace ''- 2 ^ 2'' CHR '' '' [] = written ?c"
    by (simp add: replace_def phrase_examples)
  have d1: "grammatical ?d" by (simp add: arithmetic_operators_def)
  have d2: "arith_value (prepare_names None) (tree_of ?d) = Some (VInt (- 5))" by (simp add: defined_def py_sub_def)
  have d3: "replace ''2 - 3 - 4'' CHR '' '' [] = written ?d"
    by (simp add: replace_def phrase_examples)
  have e1: "grammatical ?e" by (simp add: arithmetic_operators_def)
  have e2: "arith_value (prepare_names None) (tree_of ?e) = Some (VInt 20)"
    by (simp add: defined_def py_add_def py_mul_def)
  have e3: "replace ''(2 + 3) * 4'' CHR '' '' [] = written ?e"
    by (simp add: replace_def phrase_examples)
  let ?f = "Binary (Fraction 2 ''5'') Mult (Named ''pi'')"
  have f1: "grammatical ?f"
    by (simp add: arithmetic_operators_def is_identifier_def is_digit_def digit_val_def
        is_ident_char_def is_ident_start_def reserved_def)
  have f2: "arith_value (prepare_names None) (tree_of ?f) = Some (VFloat (5 / 2 * pi))"
    by (simp add: defined_def py_mul_def prepare_names_def lower_def lower_char_def
        fraction_value_def digits_val_def digit_val_def lift_num_def)
  have f3: "replace ''2.5 * pi'' CHR '' '' [] = written ?f"
    by (simp add: replace_def phrase_examples)
  from calculate_precedence [OF a1 a2 a3, of init zeros]
    calculate_precedence [OF b1 b2 b3, of init zeros]
    calculate_precedence [OF c1 c2 c3, of init zeros]
    calculate_precedence [OF d1 d2 d3, of init zeros]
    calculate_precedence [OF e1 e2 e3, of init zeros]
    calculate_precedence [OF f1 f2 f3, of init zeros]
    a1 a2 a3 b1 b2 b3 c1 c2 c3 d1 d2 d3 e1 e2 e3 f1 f2 f3
  show ?thesis by simp
qed

subsection \<open>No unique mode\<close>

lemma parse_mode_call:
  "ast_parse ''mode(1,1,2,2)'' =
     Inr (Call (Name ''mode'')
            [Constant (VInt 1), Constant (VInt 1), Constant (VInt 2), Constant (VInt 2)] [])"
  by code_simp

lemma parse_mode_empty: "ast_parse ''mode()'' = Inr (Call (Name ''mode'') [] [])"
  by code_simp

lemma mode_of_two_modes: "statistics_mode [VInt 1, VInt 1, VInt 2, VInt 2] = Inr (VInt 1)"
  by (simp add: statistics_mode_def most_common_def count_eq_def)

text \<open>The sentinel is what \<^verbatim>\<open>_safe_mode\<close> returns for a call without arguments, the one
  \<open>StatisticsError\<close> of the host's \<^verbatim>\<open>mode\<close>.\<close>

lemma calculate_mode_of_nothing:
  "calculate self (VStr ''mode()'') s = (VStr ''No unique mode'', s)"
  by (simp add: facade_defs parse_mode_empty call_defs safe_mode_def statistics_mode_def
      most_common_def)

text \<open>
  C10. \<^verbatim>\<open>calculate("mode(1,1,2,2)")\<close> does not return the sentinel string but the number 1:
  the host's \<^verbatim>\<open>mode\<close> returns the first of several most common values and raises no
  \<open>StatisticsError\<close> for them, so the \<^verbatim>\<open>except\<close> clause of \<^verbatim>\<open>_safe_mode\<close> does not apply.
\<close>

theorem calculate_mode_of_two_modes:
  "calculate self (VStr ''mode(1,1,2,2)'') s = (VInt 1, s)"
  by (simp add: facade_defs parse_mode_call call_defs safe_mode_def mode_of_two_modes)


subsection \<open>Angle mode\<close>

lemma parse_sin_30: "ast_parse ''sin(30)'' = Inr (Call (Name ''sin'') [Constant (VInt 30)] [])"
  by code_simp

lemma parse_sin_half_pi:
  "ast_parse ''sin(pi/2)'' =
     Inr (Call (Name ''sin'') [BinOp (Name ''pi'') Div (Constant (VInt 2))] [])"
  by code_simp

lemma sin_30_degrees: "sin (30 * (pi / 180)) = (1 / 2 :: real)"
proof -
  have "sin (30 * (pi / 180)) = sin (pi / 6)" by simp
  also have "\<dots> = 1 / 2" by (rule sin_30)
  finally show ?thesis .
qed

lemma calculate_sin_30_degrees: "calculate init (VStr ''sin(30)'') s = (VFloat (1 / 2), s)"
  by (simp add: facade_defs parse_sin_30 call_defs init_def lambda1_def angle_wrapper_def
      math_radians_def math_sin_def to_float_def sin_30)

lemma calculate_sin_half_pi_radians:
  "calculate (set_mode init ''rad'') (VStr ''sin(pi/2)'') s = (VFloat 1, s)"
  by (simp add: facade_defs parse_sin_half_pi call_defs init_def set_mode_def lambda1_def
      angle_wrapper_def math_sin_def to_float_def prepare_names_def visit_Name_def
      visit_BinOp_def py_truediv_def lift_num_def)

text \<open>
  C5. In degrees mode the wrapper that \<^verbatim>\<open>_angle_wrapper\<close> returns converts its argument to
  radians and then applies the trigonometric function, in radians mode it applies the
  function to the argument as it is: degrees-mode \<open>trig(x)\<close> is radians-mode
  \<open>trig(radians(x))\<close>, for every function and every argument (a failing conversion
  included). \<open>sin\<close>, \<open>cos\<close> and \<open>tan\<close> of the function table are these wrappers. So
  \<^verbatim>\<open>calculate("sin(30)")\<close> in the initial degrees mode is \<open>sin (pi / 6) = 1 / 2\<close>, and
  \<^verbatim>\<open>calculate("sin(pi/2)")\<close> after \<^verbatim>\<open>set_mode("rad")\<close> is 1 (exactly, on idealised floats).
\<close>

theorem degrees_is_radians_of_converted:
  "angle_wrapper (set_mode self ''deg'') trig_fn x =
     (case math_radians x of
        Inl e \<Rightarrow> Inl e
      | Inr r \<Rightarrow> angle_wrapper (set_mode self ''rad'') trig_fn r) \<and>
   angle_wrapper (set_mode self ''rad'') trig_fn x = trig_fn x \<and>
   prepare_functions self ''sin'' = Some (stateless (lambda1 (angle_wrapper self math_sin))) \<and>
   prepare_functions self ''cos'' = Some (stateless (lambda1 (angle_wrapper self math_cos))) \<and>
   prepare_functions self ''tan'' = Some (stateless (lambda1 (angle_wrapper self math_tan))) \<and>
   calculate init (VStr ''sin(30)'') s = (VFloat (1 / 2), s) \<and>
   calculate (set_mode init ''rad'') (VStr ''sin(pi/2)'') s = (VFloat 1, s)"
proof -
  have rad: "angle_wrapper (set_mode self ''rad'') trig_fn = trig_fn" for trig_fn
    by (simp add: angle_wrapper_def set_mode_def)
  have deg: "angle_wrapper (set_mode self ''deg'') trig_fn x =
      (case math_radians x of Inl e \<Rightarrow> Inl e | Inr r \<Rightarrow> trig_fn r)"
    by (simp add: angle_wrapper_def set_mode_def)
  have tab: "prepare_functions self ''sin'' = Some (stateless (lambda1 (angle_wrapper self math_sin))) \<and>
      prepare_functions self ''cos'' = Some (stateless (lambda1 (angle_wrapper self math_cos))) \<and>
      prepare_functions self ''tan'' = Some (stateless (lambda1 (angle_wrapper self math_tan)))"
    by (simp add: prepare_functions_def)
  show ?thesis
    using tab calculate_sin_30_degrees [of s] calculate_sin_half_pi_radians [of s]
    by (simp only: rad deg)
qed

subsection \<open>Chained comparison\<close>

lemma compare_step_in_grammar:
  "in_grammar opr \<Longrightarrow> compare_step opr True a b = host_compare opr a b"
  "in_grammar opr \<Longrightarrow> compare_step opr False a b = Inr False"
  by (cases opr; simp add: compare_step_def)+

text \<open>After a pair that failed, the loop still evaluates every comparator and makes no
  further comparison.\<close>

lemma compare_loop_failed:
  "length cmpops = length comparators \<Longrightarrow> list_all in_grammar cmpops \<Longrightarrow>
   visit_list F N comparators s = (Inr vs, s') \<Longrightarrow>
   compare_loop F N left False cmpops comparators s = (Inr (VBool False), s')"
proof (induction comparators arbitrary: cmpops left s vs)
  case Nil
  then show ?case by simp
next
  case (Cons c cs)
  from Cons.prems(1) obtain opr oprs where ops: "cmpops = opr # oprs" and len: "length oprs = length cs"
    by (cases cmpops) auto
  from Cons.prems(2) ops have gr: "in_grammar opr" "list_all in_grammar oprs" by simp_all
  from Cons.prems(3) obtain v s1 vs' where
    v: "visit F N c s = (Inr v, s1)" and rest: "visit_list F N cs s1 = (Inr vs', s')"
    by (auto split: prod.splits sum.splits)
  have "compare_loop F N v False oprs cs s1 = (Inr (VBool False), s')"
    by (rule Cons.IH [OF len gr(2) rest])
  then show ?case using ops v compare_step_in_grammar(2) [OF gr(1)] by simp
qed

lemma compare_loop_chain:
  "length cmpops = length comparators \<Longrightarrow> list_all in_grammar cmpops \<Longrightarrow>
   visit_list F N comparators s = (Inr vs, s') \<Longrightarrow>
   chained_and cmpops (left # vs) = Inr b \<Longrightarrow>
   compare_loop F N left True cmpops comparators s = (Inr (VBool b), s')"
proof (induction comparators arbitrary: cmpops left s vs)
  case Nil
  then show ?case by simp
next
  case (Cons c cs)
  from Cons.prems(1) obtain opr oprs where ops: "cmpops = opr # oprs" and len: "length oprs = length cs"
    by (cases cmpops) auto
  from Cons.prems(2) ops have gr: "in_grammar opr" "list_all in_grammar oprs" by simp_all
  from Cons.prems(3) obtain v s1 vs' where
    v: "visit F N c s = (Inr v, s1)" and rest: "visit_list F N cs s1 = (Inr vs', s')"
    and vs: "vs = v # vs'"
    by (auto split: prod.splits sum.splits)
  from Cons.prems(4) ops vs obtain t where
    t: "host_compare opr left v = Inr t"
    and b: "(if t then chained_and oprs (v # vs') else Inr False) = Inr b"
    by (auto split: sum.splits)
  have step: "compare_step opr True left v = Inr t"
    using compare_step_in_grammar(1) [OF gr(1)] t by simp
  show ?case
  proof (cases t)
    case True
    with b have "chained_and oprs (v # vs') = Inr b" by simp
    then have "compare_loop F N v True oprs cs s1 = (Inr (VBool b), s')"
      by (rule Cons.IH [OF len gr(2) rest])
    then show ?thesis using ops v step True by simp
  next
    case False
    with b have "b = False" by simp
    moreover have "compare_loop F N v False oprs cs s1 = (Inr (VBool False), s')"
      by (rule compare_loop_failed [OF len gr(2) rest])
    ultimately show ?thesis using ops v step False by simp
  qed
qed

lemma parse_chain_true:
  "ast_parse ''1<2<3'' =
     Inr (Compare (Constant (VInt 1)) [Lt, Lt] [Constant (VInt 2), Constant (VInt 3)])"
  by code_simp

lemma parse_chain_false:
  "ast_parse ''3<2<1'' =
     Inr (Compare (Constant (VInt 3)) [Lt, Lt] [Constant (VInt 2), Constant (VInt 1)])"
  by code_simp

lemma parse_chain_rand:
  "ast_parse ''3<2<rand()'' =
     Inr (Compare (Constant (VInt 3)) [Lt, Lt] [Constant (VInt 2), Call (Name ''rand'') [] []])"
  by code_simp

lemmas compare_defs = compare_step_def cmp3_def

text \<open>
  C6. A chained comparison evaluates its first operand and then every comparator operand,
  each exactly once and in order - the state reached is the one that evaluating the
  operands one after the other reaches, whatever the earlier pairs gave - and its value
  is the logical AND of the adjacent pairwise comparisons of the host language on the
  values of the operands. So \<^verbatim>\<open>calculate("1<2<3")\<close> is true and \<^verbatim>\<open>calculate("3<2<1")\<close> is
  false; in \<^verbatim>\<open>3<2<rand()\<close> the comparator after the failed pair is still evaluated, as the
  draw that \<^verbatim>\<open>rand()\<close> takes from the generator shows.
\<close>

theorem compare_chain:
  assumes "length cmpops = length comparators" and "list_all in_grammar cmpops"
    and "visit_list F N (l # comparators) s = (Inr vals, s')"
    and "chained_and cmpops vals = Inr b"
  shows "visit F N (Compare l cmpops comparators) s = (Inr (VBool b), s') \<and>
         calculate self (VStr ''1<2<3'') s0 = (VBool True, s0) \<and>
         calculate self (VStr ''3<2<1'') s0 = (VBool False, s0) \<and>
         calculate self (VStr ''3<2<rand()'') s0 = (VBool False, \<lambda>i. s0 (Suc i))"
proof -
  from assms(3) obtain v s1 vs where
    v: "visit F N l s = (Inr v, s1)" and rest: "visit_list F N comparators s1 = (Inr vs, s')"
    and vals: "vals = v # vs"
    by (auto split: prod.splits sum.splits)
  have "compare_loop F N v True cmpops comparators s1 = (Inr (VBool b), s')"
    using assms(4) vals by (intro compare_loop_chain [OF assms(1,2) rest]) simp
  then have 1: "visit F N (Compare l cmpops comparators) s = (Inr (VBool b), s')"
    using v by simp
  have 2: "calculate self (VStr ''1<2<3'') s0 = (VBool True, s0)"
    by (simp add: facade_defs parse_chain_true compare_defs)
  have 3: "calculate self (VStr ''3<2<1'') s0 = (VBool False, s0)"
    by (simp add: facade_defs parse_chain_false compare_defs)
  have 4: "calculate self (VStr ''3<2<rand()'') s0 = (VBool False, \<lambda>i. s0 (Suc i))"
    by (simp add: facade_defs parse_chain_rand compare_defs call_defs fn_rand_def
        random_random_def)
  from 1 2 3 4 show ?thesis by simp
qed

theorem compare_chain_witness:
  "list_all in_grammar [Lt, Lt] \<and>
   visit_list (prepare_functions init) (prepare_names None)
     [Constant (VInt 1), Constant (VInt 2), Constant (VInt 3)] zeros =
     (Inr [VInt 1, VInt 2, VInt 3], zeros) \<and>
   chained_and [Lt, Lt] [VInt 1, VInt 2, VInt 3] = Inr True \<and>
   visit (prepare_functions init) (prepare_names None)
     (Compare (Constant (VInt 1)) [Lt, Lt] [Constant (VInt 2), Constant (VInt 3)]) zeros =
     (Inr (VBool True), zeros) \<and>
   visit_list (prepare_functions init) (prepare_names None)
     [Constant (VInt 3), Constant (VInt 2), Constant (VInt 1)] zeros =
     (Inr [VInt 3, VInt 2, VInt 1], zeros) \<and>
   chained_and [Lt, Lt] [VInt 3, VInt 2, VInt 1] = Inr False \<and>
   visit (prepare_functions init) (prepare_names None)
     (Compare (Constant (VInt 3)) [Lt, Lt] [Constant (VInt 2), Constant (VInt 1)]) zeros =
     (Inr (VBool False), zeros)"
proof -
  have g: "list_all in_grammar [Lt, Lt]" by simp
  have len: "length [Lt, Lt] = length [Constant (VInt 2), Constant (VInt 3)]"
    "length [Lt, Lt] = length [Constant (VInt 2), Constant (VInt 1)]" by simp_all
  have a1: "visit_list (prepare_functions init) (prepare_names None)
     [Constant (VInt 1), Constant (VInt 2), Constant (VInt 3)] zeros =
     (Inr [VInt 1, VInt 2, VInt 3], zeros)" by simp
  have b1: "chained_and [Lt, Lt] [VInt 1, VInt 2, VInt 3] = Inr True" by (simp add: cmp3_def)
  have a2: "visit_list (prepare_functions init) (prepare_names None)
     [Constant (VInt 3), Constant (VInt 2), Constant (VInt 1)] zeros =
     (Inr [VInt 3, VInt 2, VInt 1], zeros)" by simp
  have b2: "chained_and [Lt, Lt] [VInt 3, VInt 2, VInt 1] = Inr False" by (simp add: cmp3_def)
  from compare_chain [OF len(1) g a1 b1] compare_chain [OF len(2) g a2 b2] g a1 b1 a2 b2
  show ?thesis by simp
qed

subsection \<open>Boolean operators\<close>

lemma visit_list_append:
  "visit_list F N (xs @ ys) s =
     (case visit_list F N xs s of
        (Inl e, s1) \<Rightarrow> (Inl e, s1)
      | (Inr a, s1) \<Rightarrow>
          (case visit_list F N ys s1 of
             (Inl e, s2) \<Rightarrow> (Inl e, s2)
           | (Inr b, s2) \<Rightarrow> (Inr (a @ b), s2)))"
  by (induction xs arbitrary: s) (auto split: prod.splits sum.splits)

lemma visit_list_length:
  "visit_list F N xs s = (Inr vals, s') \<Longrightarrow> length vals = length xs"
  by (induction xs arbitrary: s vals) (auto split: prod.splits sum.splits)

text \<open>
  C7. \<^verbatim>\<open>visit_BoolOp\<close> evaluates every operand, in order and without short-circuit: where
  all operands evaluate, the result is \<^verbatim>\<open>all\<close> (for \<open>and\<close>) or \<^verbatim>\<open>any\<close> (for \<open>or\<close>) of
  their truthiness; and an exception raised by a later operand propagates whatever the
  operands before it were, as in \<open>0 and 1/0\<close>.
\<close>

theorem boolop_evaluates_every_operand:
  assumes "visit_list F N pre s = (Inr vals, s1)"
  shows "visit F N (BoolOp And pre) s = (Inr (VBool (list_all truthy vals)), s1) \<and>
         visit F N (BoolOp Or pre) s = (Inr (VBool (list_ex truthy vals)), s1) \<and>
         length vals = length pre \<and>
         (visit F N v s1 = (Inl e, s2) \<longrightarrow>
            visit F N (BoolOp opr (pre @ v # post)) s = (Inl e, s2))"
  using assms visit_list_length [OF assms]
  by (simp add: visit_BoolOp_def visit_list_append)

theorem boolop_evaluates_every_operand_witness:
  "visit_list (prepare_functions init) (prepare_names None) [Constant (VInt 0)] zeros =
     (Inr [VInt 0], zeros) \<and>
   visit (prepare_functions init) (prepare_names None) (BoolOp And [Constant (VInt 0)]) zeros =
     (Inr (VBool False), zeros) \<and>
   visit (prepare_functions init) (prepare_names None)
     (BinOp (Constant (VInt 1)) Div (Constant (VInt 0))) zeros =
     (Inl (EvalError ''Division by zero''), zeros) \<and>
   visit (prepare_functions init) (prepare_names None)
     (BoolOp And [Constant (VInt 0), BinOp (Constant (VInt 1)) Div (Constant (VInt 0))]) zeros =
     (Inl (EvalError ''Division by zero''), zeros)"
proof -
  have a: "visit_list (prepare_functions init) (prepare_names None) [Constant (VInt 0)] zeros =
     (Inr [VInt 0], zeros)" by simp
  have b: "visit (prepare_functions init) (prepare_names None)
     (BinOp (Constant (VInt 1)) Div (Constant (VInt 0))) zeros =
     (Inl (EvalError ''Division by zero''), zeros)"
    by (simp add: visit_BinOp_def py_truediv_def lift_num_def)
  from boolop_evaluates_every_operand [OF a, where v = "BinOp (Constant (VInt 1)) Div (Constant (VInt 0))"
      and e = "EvalError ''Division by zero''" and ?s2.0 = zeros and opr = And and post = "[]"] a b
  show ?thesis by simp
qed

text \<open>Through the facade the operand has to be written so that it survives the removal of
  the spaces: \<^verbatim>\<open>"0 and (1/0)"\<close> becomes \<^verbatim>\<open>0and(1/0)\<close>, while \<^verbatim>\<open>"0 and 1/0"\<close> becomes
  \<^verbatim>\<open>0and1/0\<close>, which is no expression.\<close>

lemma parse_and_division:
  "ast_parse ''0and(1/0)'' =
     Inr (BoolOp And [Constant (VInt 0), BinOp (Constant (VInt 1)) Div (Constant (VInt 0))])"
  by code_simp

lemma parse_and_glued: "ast_parse ''0and1/0'' = Inl (SyntaxError ''invalid syntax'')"
  by code_simp

lemma calculate_and_division_by_zero:
  "calculate self (VStr ''0 and (1/0)'') s = (VStr ''Error: Division by zero'', s) \<and>
   calculate self (VStr ''0 and 1/0'') s = (VStr ''Error'', s)"
  by (simp add: facade_defs parse_and_division parse_and_glued visit_BinOp_def py_truediv_def
      lift_num_def)

subsection \<open>Whitespace\<close>

lemma parse_or_tab:
  "ast_parse (''1or'' @ [CHR 0x09] @ ''2'') = Inr (BoolOp Or [Constant (VInt 1), Constant (VInt 2)])"
  by code_simp

lemma parse_or_glued: "ast_parse ''1or2'' = Inl (SyntaxError ''invalid syntax'')"
  by code_simp

lemma parse_not_glued: "ast_parse ''not1'' = Inr (Name ''not1'')"
  by code_simp

lemma parse_digits_glued: "ast_parse ''12'' = Inr (Constant (VInt 12))"
  by code_simp

lemma parse_one_plus_two:
  "ast_parse ''1+2'' = Inr (BinOp (Constant (VInt 1)) Add (Constant (VInt 2)))"
  by code_simp

text \<open>What \<^verbatim>\<open>calculate\<close> and \<^verbatim>\<open>evaluate_for_x\<close> do with the space characters, for every
  parser: they remove them from the text, so two texts that are equal without their
  spaces give the same result. \<^verbatim>\<open>"1 + 2"\<close> and \<^verbatim>\<open>"1+2"\<close> both give 3.\<close>

lemma spaces_removed:
  "replace a CHR '' '' [] = replace b CHR '' '' [] \<Longrightarrow>
   calculate_with parse self (VStr a) s = calculate_with parse self (VStr b) s \<and>
   evaluate_for_x_with parse self (VStr a) x s = evaluate_for_x_with parse self (VStr b) x s"
  by (simp add: calculate_with_def evaluate_for_x_with_def try_evaluate_def)

lemma calculate_spaced_sum:
  "calculate self (VStr ''1 + 2'') s = (VInt 3, s) \<and>
   calculate self (VStr ''1+2'') s = (VInt 3, s)"
  by (simp add: facade_defs parse_one_plus_two visit_BinOp_def py_add_def)

text \<open>
  C8. The spaces between tokens are not insignificant: \<^verbatim>\<open>calculate\<close> removes every space
  character from the text before the parser sees it, also where the space is what
  separates two tokens. \<^verbatim>\<open>"1 or 2"\<close> reaches the parser as \<^verbatim>\<open>1or2\<close> and gives \<^verbatim>\<open>"Error"\<close>,
  while the same expression with a tab after \<open>or\<close> gives true, as the evaluator does on
  its tree; \<^verbatim>\<open>"not 1"\<close> becomes the unknown name \<^verbatim>\<open>not1\<close>, and \<^verbatim>\<open>"1 2"\<close> the number 12.
\<close>

theorem calculate_spaces_between_tokens:
  "calculate self (VStr ''1 or 2'') s = (VStr ''Error'', s) \<and>
   calculate self (VStr (''1 or'' @ [CHR 0x09] @ ''2'')) s = (VBool True, s) \<and>
   visit F N (BoolOp Or [Constant (VInt 1), Constant (VInt 2)]) s = (Inr (VBool True), s) \<and>
   calculate self (VStr ''not 1'') s = (VStr ''Error: Unknown name: not1'', s) \<and>
   calculate self (VStr ''1 2'') s = (VInt 12, s)"
  using parse_or_tab parse_or_glued
  by (simp add: facade_defs visit_BoolOp_def parse_not_glued parse_digits_glued visit_Name_def
      prepare_names_def lower_def lower_char_def)

subsection \<open>Evaluation at a value of x\<close>

lemma parse_one_over_x:
  "ast_parse ''1/x'' = Inr (BinOp (Constant (VInt 1)) Div (Name ''x''))"
  by code_simp

lemma parse_x: "ast_parse ''x'' = Inr (Name ''x'')"
  by code_simp

lemma parse_unbalanced: "ast_parse ''(1'' = Inl (SyntaxError ''invalid syntax'')"
  by code_simp

text \<open>
  \<^verbatim>\<open>evaluate_for_x\<close> returns for every expression and every \<open>x\<close>, with every parser: the
  result of the evaluation with \<open>x\<close> bound where the evaluation returns, and \<^verbatim>\<open>None\<close> where
  the parser or the evaluator raises an exception of any class.
\<close>

lemma evaluate_for_x_returns:
  "(\<exists>v s'. try_evaluate parse self (Some [(''x'', x)]) expression s = (Inr v, s') \<and>
           evaluate_for_x_with parse self expression x s = (v, s')) \<or>
   (\<exists>e s'. try_evaluate parse self (Some [(''x'', x)]) expression s = (Inl e, s') \<and>
           evaluate_for_x_with parse self expression x s = (VNone, s'))"
proof -
  obtain r s' where r: "try_evaluate parse self (Some [(''x'', x)]) expression s = (r, s')"
    by (cases "try_evaluate parse self (Some [(''x'', x)]) expression s")
  show ?thesis
  proof (cases r)
    case (Inl e)
    then show ?thesis using r by (cases e) (simp_all add: evaluate_for_x_with_def)
  next
    case (Inr v)
    then show ?thesis using r by (simp add: evaluate_for_x_with_def)
  qed
qed

text \<open>A division by zero, a syntax error and an unknown name give \<^verbatim>\<open>None\<close>, and \<open>x\<close> is
  bound to the value given.\<close>

lemma evaluate_for_x_examples:
  "evaluate_for_x self (VStr ''1/x'') (VFloat 0) s = (VNone, s) \<and>
   evaluate_for_x self (VStr ''(1'') x s = (VNone, s) \<and>
   evaluate_for_x self (VStr ''y'') x s = (VNone, s) \<and>
   evaluate_for_x self (VStr ''x'') x s = (x, s)"
proof -
  have p: "ast_parse ''y'' = Inr (Name ''y'')" by code_simp
  show ?thesis
    by (simp add: facade_defs parse_one_over_x parse_unbalanced p parse_x prepare_names_def
        lower_def lower_char_def visit_Name_def visit_BinOp_def py_truediv_def lift_num_def)
qed

text \<open>
  C9. \<^verbatim>\<open>evaluate_for_x\<close> does not return \<^verbatim>\<open>None\<close> on every failure: the entry \<^verbatim>\<open>mean\<close> of the
  function table returns the exception object \<^verbatim>\<open>EvalError("mean() needs args")\<close> instead of
  raising it, so \<^verbatim>\<open>evaluate_for_x("mean()", x)\<close> catches nothing and hands that object to
  the caller, for every \<open>x\<close>: neither \<^verbatim>\<open>None\<close> nor an evaluated value.
\<close>

theorem evaluate_for_x_mean_without_arguments:
  "evaluate_for_x self (VStr ''mean()'') x s = (VExc (EvalError ''mean() needs args''), s)"
  by (simp add: facade_defs parse_mean_call call_defs fn_mean_def)

end
